theory Spec2Isabelle
  imports Complex_Main "HOL-Library.Char_ord" "HOL-Library.List_Lexorder"
    "HOL-Library.Product_Lexorder" "HOL-Library.Multiset"
begin

section \<open>CarbonSense: synthetic readings and ESG aggregation\<close>

text \<open>
  A shallow embedding of \<^verbatim>\<open>DataGenerator._generate_operational_data\<close> and of the three
  methods of \<^verbatim>\<open>ESGCalculator\<close> in \<^verbatim>\<open>src/app.py\<close>.

  Conventions of the embedding:
  \<^item> a Python/numpy float is an exact \<^typ>\<open>real\<close>, and sums and products are
    exact: this is right for signs, zeros and bounds with slack. The quotients, where IEEE
    arithmetic leaves the finite numbers on a zero divisor, are values of their own type
    \<open>fval\<close>; and the totals whose last bits depend on the order of the additions are
    computed a second time with every addition rounded to binary64;
  \<^item> a naive timestamp is its number of microseconds since the epoch, an \<^typ>\<open>int\<close>;
  \<^item> a DataFrame is the list of its rows, each row a record;
  \<^item> the global numpy random state is the sequence of unit samples that
    \<^verbatim>\<open>np.random.uniform\<close> will scale and the sequence of standard deviates that
    \<^verbatim>\<open>np.random.normal\<close> will scale, each with the position of the next draw;
  \<^item> a Python exception is the \<open>Inl\<close> branch of a sum type.
\<close>

subsection \<open>Numbers\<close>

text \<open>Python's \<^verbatim>\<open>round(x, ndigits)\<close>: to the nearest multiple of \<open>10^-ndigits\<close>, a tie
  going to the even neighbour.\<close>

definition round_half_even :: "real \<Rightarrow> int" where
  "round_half_even y =
     (let f = \<lfloor>y\<rfloor>; d = y - of_int f
      in if d < 1 / 2 then f
         else if 1 / 2 < d then f + 1
         else if even f then f else f + 1)"

definition py_round :: "real \<Rightarrow> nat \<Rightarrow> real" where
  "py_round x ndigits = of_int (round_half_even (x * 10 ^ ndigits)) / 10 ^ ndigits"

text \<open>The result of a float division: numpy and pandas do not raise on a zero divisor,
  they return \<open>nan\<close> for \<open>0/0\<close> and a signed infinity otherwise (the sign of a zero
  divisor is not modelled).\<close>

datatype fval = Finite real | PosInf | NegInf | NaN

definition fdiv :: "real \<Rightarrow> real \<Rightarrow> fval" where
  "fdiv x y =
     (if y \<noteq> 0 then Finite (x / y)
      else if x = 0 then NaN
      else if 0 < x then PosInf else NegInf)"

fun is_finite :: "fval \<Rightarrow> bool" where
  "is_finite (Finite _) = True"
| "is_finite _ = False"

fun the_finite :: "fval \<Rightarrow> real" where
  "the_finite (Finite x) = x"
| "the_finite _ = 0"

text \<open>\<^verbatim>\<open>Series.mean()\<close> skips \<open>nan\<close>, is \<open>nan\<close> on nothing left, and follows IEEE
  addition on infinities.\<close>

definition series_mean :: "fval list \<Rightarrow> fval" where
  "series_mean xs =
     (let ys = filter (\<lambda>x. x \<noteq> NaN) xs
      in if ys = [] then NaN
         else if PosInf \<in> set ys \<and> NegInf \<in> set ys then NaN
         else if PosInf \<in> set ys then PosInf
         else if NegInf \<in> set ys then NegInf
         else Finite (sum_list (map the_finite ys) / real (length ys)))"

datatype py_error = TypeError | ZeroDivisionError

subsection \<open>Timestamps\<close>

type_synonym timestamp = int

definition usec_per_minute :: int where
  "usec_per_minute = 60000000"

definition usec_per_hour :: int where
  "usec_per_hour = 60 * usec_per_minute"

definition usec_per_day :: int where
  "usec_per_day = 24 * usec_per_hour"

definition hour_of :: "timestamp \<Rightarrow> int" where
  "hour_of ts = (ts div usec_per_hour) mod 24"

definition date_of :: "timestamp \<Rightarrow> int" where
  "date_of ts = ts div usec_per_day"

text \<open>\<^verbatim>\<open>pd.date_range(start=, end=, freq=)\<close>: \<open>start\<close>, \<open>start + freq\<close>, ... up to and
  including \<open>end\<close> when it is hit.\<close>

definition date_range :: "timestamp \<Rightarrow> timestamp \<Rightarrow> int \<Rightarrow> timestamp list" where
  "date_range start end freq =
     (if end < start then []
      else map (\<lambda>k. start + int k * freq) [0 ..< Suc (nat ((end - start) div freq))])"

subsection \<open>The random source\<close>

record rng =
  unit_src :: "nat \<Rightarrow> real"
  unit_pos :: nat
  gauss_src :: "nat \<Rightarrow> real"
  gauss_pos :: nat

text \<open>\<^verbatim>\<open>np.random.uniform(low, high)\<close> is \<open>low + (high - low) * u\<close> for the next unit
  sample \<open>u\<close>; \<^verbatim>\<open>np.random.normal(loc, scale)\<close> is \<open>loc + scale * z\<close> for the next
  standard deviate \<open>z\<close>.\<close>

definition uniform :: "real \<Rightarrow> real \<Rightarrow> rng \<Rightarrow> real \<times> rng" where
  "uniform low high g =
     (low + (high - low) * unit_src g (unit_pos g), g\<lparr>unit_pos := Suc (unit_pos g)\<rparr>)"

definition normal :: "real \<Rightarrow> real \<Rightarrow> rng \<Rightarrow> real \<times> rng" where
  "normal loc scale g =
     (loc + scale * gauss_src g (gauss_pos g), g\<lparr>gauss_pos := Suc (gauss_pos g)\<rparr>)"

text \<open>What numpy guarantees of the unit samples: each lies in \<open>[0, 1)\<close>.\<close>

definition unit_samples :: "rng \<Rightarrow> bool" where
  "unit_samples g \<longleftrightarrow> (\<forall>i. 0 \<le> unit_src g i \<and> unit_src g i < 1)"

text \<open>Two states of one source: the same samples, possibly at other positions.\<close>

definition same_source :: "rng \<Rightarrow> rng \<Rightarrow> bool" where
  "same_source g g' \<longleftrightarrow> unit_src g' = unit_src g \<and> gauss_src g' = gauss_src g"

subsection \<open>The asset registry\<close>

record asset_info =
  info_type :: string
  info_capacity :: int
  info_location :: string

definition ASSETS :: "(string \<times> asset_info) list" where
  "ASSETS =
     [(''Barmer Thermal'',
         \<lparr>info_type = ''thermal'', info_capacity = 1320, info_location = ''Rajasthan''\<rparr>),
      (''Karnataka Solar'',
         \<lparr>info_type = ''solar'', info_capacity = 500, info_location = ''Karnataka''\<rparr>),
      (''Maharashtra Wind'',
         \<lparr>info_type = ''wind'', info_capacity = 300, info_location = ''Maharashtra''\<rparr>),
      (''Himachal Hydro'',
         \<lparr>info_type = ''hydro'', info_capacity = 240, info_location = ''Himachal Pradesh''\<rparr>)]"

subsection \<open>DataGenerator\<close>

record reading =
  timestamp :: timestamp
  asset_name :: string
  asset_type :: string
  capacity :: int
  generation_mw :: real
  fuel_consumed_tonnes :: real
  coal_calorific_value_kcal :: real
  emissions_co2_tonnes :: real
  water_withdrawal_cum :: real
  operating_efficiency :: real

text \<open>Lines 40 to 51: the generation of one reading, before rounding.\<close>

definition draw_generation :: "asset_info \<Rightarrow> timestamp \<Rightarrow> rng \<Rightarrow> real \<times> rng" where
  "draw_generation asset_info ts g =
     (let base_load = of_int (info_capacity asset_info) * 0.75
      in if info_type asset_info = ''solar'' then
           (let hour = hour_of ts;
                (u, g1) = uniform 0.9 1.1 g
            in (base_load * max 0 (- 0.1 * (of_int hour - 12) ^ 2 + 1) * u, g1))
         else if info_type asset_info = ''wind'' then
           (let (u, g1) = uniform 0.3 1.0 g
            in (base_load * u * (1 + 0.1 * sin (of_int (hour_of ts) / 24 * 2 * pi)), g1))
         else if info_type asset_info = ''hydro'' then
           (let (u, g1) = uniform 0.5 1.0 g in (base_load * u, g1))
         else
           (let (u, g1) = uniform 0.85 1.05 g in (base_load * u, g1)))"

text \<open>Lines 53 to 61: fuel, calorific value and emissions, drawn for a thermal asset only.\<close>

definition draw_fuel :: "asset_info \<Rightarrow> real \<Rightarrow> rng \<Rightarrow> (real \<times> real \<times> real) \<times> rng" where
  "draw_fuel asset_info generation g =
     (if info_type asset_info = ''thermal'' then
        (let (heat_rate, g1) = normal 2500 50 g;
             fuel_consumed = generation * heat_rate / 1000;
             (c, g2) = uniform (- 100) 100 g1;
             coal_calorific_value = 3800 + c;
             emissions_co2 = fuel_consumed * 2.5
         in ((fuel_consumed, coal_calorific_value, emissions_co2), g2))
      else ((0, 0, 0), g))"

text \<open>Lines 63 to 74: the row appended for one asset and one timestamp.\<close>

definition gen_reading :: "string \<Rightarrow> asset_info \<Rightarrow> timestamp \<Rightarrow> rng \<Rightarrow> reading \<times> rng" where
  "gen_reading name asset_info ts g =
     (let (generation, g1) = draw_generation asset_info ts g;
          ((fuel_consumed, coal_calorific_value, emissions_co2), g2) =
             draw_fuel asset_info generation g1;
          (w, g3) = uniform 50 150 g2;
          (e, g4) = uniform 85 95 g3
      in (\<lparr>timestamp = ts,
           asset_name = name,
           asset_type = info_type asset_info,
           capacity = info_capacity asset_info,
           generation_mw = py_round generation 2,
           fuel_consumed_tonnes = py_round fuel_consumed 2,
           coal_calorific_value_kcal = coal_calorific_value,
           emissions_co2_tonnes = py_round emissions_co2 2,
           water_withdrawal_cum = py_round (w * generation / 1000) 2,
           operating_efficiency = py_round e 2\<rparr>, g4))"

text \<open>The inner loop, over the timestamps of one asset.\<close>

fun asset_rows :: "string \<Rightarrow> asset_info \<Rightarrow> timestamp list \<Rightarrow> rng \<Rightarrow> reading list \<times> rng" where
  "asset_rows name asset_info [] g = ([], g)"
| "asset_rows name asset_info (ts # tss) g =
     (let (r, g1) = gen_reading name asset_info ts g;
          (rs, g2) = asset_rows name asset_info tss g1
      in (r # rs, g2))"

text \<open>The outer loop, over the registry in its insertion order.\<close>

fun all_rows :: "(string \<times> asset_info) list \<Rightarrow> timestamp list \<Rightarrow> rng \<Rightarrow> reading list \<times> rng" where
  "all_rows [] tss g = ([], g)"
| "all_rows ((name, asset_info) # assets) tss g =
     (let (rs, g1) = asset_rows name asset_info tss g;
          (rs', g2) = all_rows assets tss g1
      in (rs @ rs', g2))"

definition window :: "timestamp \<Rightarrow> timestamp list" where
  "window now = date_range (now - 7 * usec_per_day) now (15 * usec_per_minute)"

definition generate_operational_data :: "timestamp \<Rightarrow> rng \<Rightarrow> reading list \<times> rng" where
  "generate_operational_data now g = all_rows ASSETS (window now) g"

text \<open>\<^verbatim>\<open>DataGenerator.__init__(self)\<close> has no parameter besides \<open>self\<close>: a call that
  passes a seed is a \<open>TypeError\<close>. The clock reading and the random state are ambient.
  (The audit table, filled from the Faker library, is not modelled.)\<close>

definition DataGenerator_init ::
    "int option \<Rightarrow> timestamp \<Rightarrow> rng \<Rightarrow> py_error + (reading list \<times> rng)" where
  "DataGenerator_init seed now g =
     (case seed of
        Some _ \<Rightarrow> Inl TypeError
      | None \<Rightarrow> Inr (generate_operational_data now g))"

subsection \<open>ESGCalculator\<close>

text \<open>\<^verbatim>\<open>df.groupby(key)\<close>: the rows split by key, one group for each key that occurs,
  the groups in ascending order of the key.\<close>

definition groupby :: "('r \<Rightarrow> 'k::linorder) \<Rightarrow> 'r list \<Rightarrow> ('k \<times> 'r list) list" where
  "groupby key df = map (\<lambda>k. (k, filter (\<lambda>r. key r = k) df)) (sort (remdups (map key df)))"

definition column_sum :: "('r \<Rightarrow> real) \<Rightarrow> 'r list \<Rightarrow> real" where
  "column_sum col df = sum_list (map col df)"

record scope1_row =
  s1_date :: int
  s1_generation_mw :: real
  s1_fuel_consumed_tonnes :: real
  s1_emissions_co2_tonnes :: real

text \<open>\<^verbatim>\<open>if asset_name:\<close> is false for \<open>None\<close> and for the empty string.\<close>

definition select_asset :: "string option \<Rightarrow> reading list \<Rightarrow> reading list" where
  "select_asset name df =
     (case name of
        None \<Rightarrow> df
      | Some n \<Rightarrow> if n = [] then df else filter (\<lambda>r. asset_name r = n) df)"

definition thermal_rows :: "reading list \<Rightarrow> reading list" where
  "thermal_rows df = filter (\<lambda>r. asset_type r = ''thermal'') df"

definition calculate_scope1_emissions :: "string option \<Rightarrow> reading list \<Rightarrow> scope1_row list" where
  "calculate_scope1_emissions name df =
     (let thermal_df = thermal_rows (select_asset name df)
      in map (\<lambda>(d, grp).
            \<lparr>s1_date = d,
             s1_generation_mw = column_sum generation_mw grp,
             s1_fuel_consumed_tonnes = column_sum fuel_consumed_tonnes grp,
             s1_emissions_co2_tonnes = column_sum emissions_co2_tonnes grp\<rparr>)
          (groupby (\<lambda>r. date_of (timestamp r)) thermal_df))"

record water_row =
  w_date :: int
  w_asset_name :: string
  w_generation_mw :: real
  w_water_withdrawal_cum :: real
  water_intensity :: fval

definition calculate_water_intensity :: "reading list \<Rightarrow> water_row list" where
  "calculate_water_intensity df =
     map (\<lambda>((d, n), grp).
        (let gen = column_sum generation_mw grp;
             water = column_sum water_withdrawal_cum grp
         in \<lparr>w_date = d,
             w_asset_name = n,
             w_generation_mw = gen,
             w_water_withdrawal_cum = water,
             water_intensity = fdiv water gen\<rparr>))
       (groupby (\<lambda>r. (date_of (timestamp r), asset_name r)) df)"

text \<open>The (date, asset) group of a row: the rows that \<^verbatim>\<open>groupby\<close> puts with it in
  \<open>calculate_water_intensity\<close>.\<close>

definition water_group :: "reading list \<Rightarrow> reading \<Rightarrow> reading list" where
  "water_group df r =
     filter (\<lambda>r'. date_of (timestamp r') = date_of (timestamp r) \<and> asset_name r' = asset_name r) df"

text \<open>\<^verbatim>\<open>str.contains('Solar|Wind|Hydro')\<close>: one of the three words occurs in the name.\<close>

fun starts_with :: "string \<Rightarrow> string \<Rightarrow> bool" where
  "starts_with s [] = True"
| "starts_with [] (c # p) = False"
| "starts_with (a # s) (c # p) = (a = c \<and> starts_with s p)"

fun str_contains :: "string \<Rightarrow> string \<Rightarrow> bool" where
  "str_contains [] p = (p = [])"
| "str_contains (a # s) p = (starts_with (a # s) p \<or> str_contains s p)"

definition renewable_name :: "string \<Rightarrow> bool" where
  "renewable_name n \<longleftrightarrow>
     str_contains n ''Solar'' \<or> str_contains n ''Wind'' \<or> str_contains n ''Hydro''"

record brsr =
  Reporting_Period :: string
  Scope1_Emissions_Total_tCO2e :: real
  Energy_Generation_Total_MWh :: real
  Emission_Intensity_kgCO2_per_MWh :: fval
  Water_withdrawal_Total_m3 :: real
  Water_Intensity_m3_per_MWh :: fval
  Renewable_Energy_Percentage :: real
  Data_Quality_Score :: real

text \<open>The entries of the report are evaluated in the order written: the division of two
  Python integers at \<open>Renewable_Energy_Percentage\<close> raises on an empty water table before
  the quality score is drawn.\<close>

definition generate_brsr_report ::
    "string \<Rightarrow> reading list \<Rightarrow> rng \<Rightarrow> py_error + (brsr \<times> rng)" where
  "generate_brsr_report reporting_period df g =
     (let scope1 = calculate_scope1_emissions None df;
          water = calculate_water_intensity df
      in if length water = 0 then Inl ZeroDivisionError
         else
           (let (q, g1) = uniform 95 100 g
            in Inr
               (\<lparr>Reporting_Period = reporting_period,
                 Scope1_Emissions_Total_tCO2e = column_sum s1_emissions_co2_tonnes scope1,
                 Energy_Generation_Total_MWh = column_sum s1_generation_mw scope1,
                 Emission_Intensity_kgCO2_per_MWh =
                   fdiv (column_sum s1_emissions_co2_tonnes scope1 * 1000)
                     (column_sum s1_generation_mw scope1),
                 Water_withdrawal_Total_m3 = column_sum w_water_withdrawal_cum water,
                 Water_Intensity_m3_per_MWh = series_mean (map water_intensity water),
                 Renewable_Energy_Percentage =
                   real (length (filter (\<lambda>w. renewable_name (w_asset_name w)) water))
                     / real (length water) * 100,
                 Data_Quality_Score = q\<rparr>, g1)))"

subsection \<open>Sums in binary64\<close>

text \<open>A binary64 number is the real it stands for. \<open>fl64\<close> rounds a real to the nearest
  binary64 number, a tie going to the even significand of 53 bits (overflow beyond the
  largest float and the subnormal range are not modelled). An IEEE addition or subtraction
  is the exact result, rounded.\<close>

definition fl64 :: "real \<Rightarrow> real" where
  "fl64 x =
     (if x = 0 then 0
      else (let e = \<lfloor>log 2 \<bar>x\<bar>\<rfloor>;
                q = 2 powr of_int (e - 52)
            in of_int (round_half_even (x / q)) * q))"

definition fadd :: "real \<Rightarrow> real \<Rightarrow> real" where
  "fadd x y = fl64 (x + y)"

definition fsub :: "real \<Rightarrow> real \<Rightarrow> real" where
  "fsub x y = fl64 (x - y)"

text \<open>The sum of one group in a pandas \<^verbatim>\<open>groupby\<close>: compensated summation, with every
  operation rounded.\<close>

fun kahan :: "real \<Rightarrow> real \<Rightarrow> real list \<Rightarrow> real" where
  "kahan sumx compensation [] = sumx"
| "kahan sumx compensation (val # vals) =
     (let y = fsub val compensation;
          t = fadd sumx y
      in kahan t (fsub (fsub t sumx) y) vals)"

definition group_sum :: "real list \<Rightarrow> real" where
  "group_sum vals = kahan 0 0 vals"

text \<open>\<^verbatim>\<open>Series.sum()\<close>: numpy adds a column of fewer than eight values from left to
  right, starting from zero. A longer column is added in blocks, in an order that is
  numpy's own: it has no value here.\<close>

definition series_sum :: "real list \<Rightarrow> real option" where
  "series_sum vals = (if length vals < 8 then Some (foldl fadd 0 vals) else None)"

text \<open>The emissions column of \<open>calculate_scope1_emissions\<close> without a filter, as the
  floats are added: one group sum for each date.\<close>

definition scope1_emissions_binary64 :: "reading list \<Rightarrow> real list" where
  "scope1_emissions_binary64 df =
     map (\<lambda>(d, grp). group_sum (map emissions_co2_tonnes grp))
       (groupby (\<lambda>r. date_of (timestamp r)) (thermal_rows (select_asset None df)))"

text \<open>A method call seen from the ambient random state: the two aggregates read the table
  and draw nothing, so they hand the state back as it was. \<open>call_twice\<close> is two calls in
  a row, the second in the state the first one left.\<close>

definition scope1_call ::
    "string option \<Rightarrow> reading list \<Rightarrow> rng \<Rightarrow> py_error + (scope1_row list \<times> rng)" where
  "scope1_call name df g = Inr (calculate_scope1_emissions name df, g)"

definition water_call :: "reading list \<Rightarrow> rng \<Rightarrow> py_error + (water_row list \<times> rng)" where
  "water_call df g = Inr (calculate_water_intensity df, g)"

definition call_twice :: "(rng \<Rightarrow> py_error + ('a \<times> rng)) \<Rightarrow> rng \<Rightarrow> py_error + ('a \<times> 'a)" where
  "call_twice m g =
     (case m g of
        Inl e \<Rightarrow> Inl e
      | Inr (a, g1) \<Rightarrow>
          (case m g1 of
             Inl e \<Rightarrow> Inl e
           | Inr (b, g2) \<Rightarrow> Inr (a, b)))"

subsection \<open>Sample inputs\<close>

text \<open>A clock reading (1970-01-08 12:00) and a random source whose unit samples are all
  \<open>1/2\<close> and whose standard deviates are all \<open>0\<close>, with the rows they give.\<close>

definition sample_now :: timestamp where
  "sample_now = 7 * usec_per_day + 12 * usec_per_hour"

definition sample_rng :: rng where
  "sample_rng = \<lparr>unit_src = (\<lambda>_. 1 / 2), unit_pos = 0, gauss_src = (\<lambda>_. 0), gauss_pos = 0\<rparr>"

text \<open>A second source, whose unit samples \<open>1/3, 1/4, 1/5, ...\<close> differ from draw to draw.\<close>

definition ramp_rng :: rng where
  "ramp_rng =
     \<lparr>unit_src = (\<lambda>i. 1 / (real i + 3)), unit_pos = 0, gauss_src = (\<lambda>_. 0), gauss_pos = 0\<rparr>"

definition solar_info :: asset_info where
  "solar_info = \<lparr>info_type = ''solar'', info_capacity = 500, info_location = ''Karnataka''\<rparr>"

definition sample_solar_reading :: reading where
  "sample_solar_reading =
     \<lparr>timestamp = 12 * usec_per_hour, asset_name = ''Karnataka Solar'', asset_type = ''solar'',
      capacity = 500, generation_mw = 375, fuel_consumed_tonnes = 0,
      coal_calorific_value_kcal = 0, emissions_co2_tonnes = 0,
      water_withdrawal_cum = 37.5, operating_efficiency = 90\<rparr>"

definition hydro_info :: asset_info where
  "hydro_info =
     \<lparr>info_type = ''hydro'', info_capacity = 240, info_location = ''Himachal Pradesh''\<rparr>"

definition sample_hydro_reading :: reading where
  "sample_hydro_reading =
     \<lparr>timestamp = 12 * usec_per_hour, asset_name = ''Himachal Hydro'', asset_type = ''hydro'',
      capacity = 240, generation_mw = 135, fuel_consumed_tonnes = 0,
      coal_calorific_value_kcal = 0, emissions_co2_tonnes = 0,
      water_withdrawal_cum = 13.5, operating_efficiency = 90\<rparr>"

definition thermal_info :: asset_info where
  "thermal_info =
     \<lparr>info_type = ''thermal'', info_capacity = 1320, info_location = ''Rajasthan''\<rparr>"

definition sample_thermal_reading :: reading where
  "sample_thermal_reading =
     \<lparr>timestamp = 12 * usec_per_hour, asset_name = ''Barmer Thermal'', asset_type = ''thermal'',
      capacity = 1320, generation_mw = 940.5, fuel_consumed_tonnes = 2351.25,
      coal_calorific_value_kcal = 3800, emissions_co2_tonnes = 5878.12,
      water_withdrawal_cum = 94.05, operating_efficiency = 90\<rparr>"

definition sample_table :: "reading list" where
  "sample_table =
     [sample_thermal_reading, sample_solar_reading, sample_hydro_reading,
      sample_thermal_reading\<lparr>timestamp := 36 * usec_per_hour\<rparr>]"

definition sample_night_reading :: reading where
  "sample_night_reading =
     \<lparr>timestamp = 0, asset_name = ''Karnataka Solar'', asset_type = ''solar'',
      capacity = 500, generation_mw = 0, fuel_consumed_tonnes = 0,
      coal_calorific_value_kcal = 0, emissions_co2_tonnes = 0,
      water_withdrawal_cum = 0, operating_efficiency = 90\<rparr>"

text \<open>A table whose thermal rows lie on dates 0, 1 and 3 and belong to two assets, with a
  solar row alone on date 2, in no order of time.\<close>

definition dated_table :: "reading list" where
  "dated_table =
     [sample_thermal_reading\<lparr>timestamp := 36 * usec_per_hour\<rparr>,
      sample_solar_reading\<lparr>timestamp := 60 * usec_per_hour\<rparr>,
      sample_thermal_reading\<lparr>asset_name := ''Kutch Thermal'', timestamp := 84 * usec_per_hour\<rparr>,
      sample_thermal_reading]"

text \<open>Four thermal readings on two dates whose emissions are the binary64 numbers nearest
  to 6519.96, 6364.32, 5757.03 and 5466.05, and the binary64 numbers that adding them gives:
  by date, 12884.279999999999 and 11223.08, together 24107.36; in a row,
  12884.279999999999, then 18641.309999999998, then 24107.359999999997.\<close>

definition em1 :: real where
  "em1 = 7168771832634409 / 2 ^ 40"

definition em2 :: real where
  "em2 = 874705480360919 / 2 ^ 37"

definition em3 :: real where
  "em3 = 6329921426455265 / 2 ^ 40"

definition em4 :: real where
  "em4 = 6009985533005005 / 2 ^ 40"

definition sub12 :: real where
  "sub12 = 442700489860055 / 2 ^ 35"

definition sub34 :: real where
  "sub34 = 6169953479730135 / 2 ^ 39"

definition total_by_date :: real where
  "total_by_date = 1656645164686377 / 2 ^ 36"

definition run123 :: real where
  "run123 = 320255267218391 / 2 ^ 34"

definition total_flat :: real where
  "total_flat = 6626580658745507 / 2 ^ 38"

definition rounding_table :: "reading list" where
  "rounding_table =
     [\<lparr>timestamp = 12 * usec_per_hour, asset_name = ''Barmer Thermal'', asset_type = ''thermal'',
       capacity = 1320, generation_mw = 1022.74, fuel_consumed_tonnes = 2607.98,
       coal_calorific_value_kcal = 3800, emissions_co2_tonnes = em1,
       water_withdrawal_cum = 102.27, operating_efficiency = 90\<rparr>,
      \<lparr>timestamp = 13 * usec_per_hour, asset_name = ''Barmer Thermal'', asset_type = ''thermal'',
       capacity = 1320, generation_mw = 998.33, fuel_consumed_tonnes = 2545.73,
       coal_calorific_value_kcal = 3800, emissions_co2_tonnes = em2,
       water_withdrawal_cum = 99.83, operating_efficiency = 90\<rparr>,
      \<lparr>timestamp = 36 * usec_per_hour, asset_name = ''Barmer Thermal'', asset_type = ''thermal'',
       capacity = 1320, generation_mw = 903.06, fuel_consumed_tonnes = 2302.81,
       coal_calorific_value_kcal = 3800, emissions_co2_tonnes = em3,
       water_withdrawal_cum = 90.31, operating_efficiency = 90\<rparr>,
      \<lparr>timestamp = 37 * usec_per_hour, asset_name = ''Barmer Thermal'', asset_type = ''thermal'',
       capacity = 1320, generation_mw = 857.42, fuel_consumed_tonnes = 2186.42,
       coal_calorific_value_kcal = 3800, emissions_co2_tonnes = em4,
       water_withdrawal_cum = 85.74, operating_efficiency = 90\<rparr>]"

section \<open>Properties\<close>

subsection \<open>Rounding\<close>

lemma round_half_even_ge: "of_int m \<le> y \<Longrightarrow> m \<le> round_half_even y"
proof -
  assume "of_int m \<le> y"
  then have "m \<le> \<lfloor>y\<rfloor>" by (simp add: le_floor_iff)
  then show ?thesis by (simp add: round_half_even_def Let_def)
qed

lemma round_half_even_le: "y \<le> of_int m \<Longrightarrow> round_half_even y \<le> m"
proof -
  assume h: "y \<le> of_int m"
  then have f: "\<lfloor>y\<rfloor> \<le> m" by (simp add: floor_le_iff)
  show ?thesis
  proof (cases "y = of_int \<lfloor>y\<rfloor>")
    case True
    then have "y - of_int \<lfloor>y\<rfloor> = 0" by simp
    then show ?thesis using f by (simp add: round_half_even_def Let_def)
  next
    case False
    then have "of_int \<lfloor>y\<rfloor> < y" using of_int_floor_le [of y] by linarith
    then have "of_int \<lfloor>y\<rfloor> < (of_int m :: real)" using h by linarith
    then have "\<lfloor>y\<rfloor> < m" by simp
    then show ?thesis by (simp add: round_half_even_def Let_def)
  qed
qed

lemma py_round2_ge: "of_int m / 100 \<le> x \<Longrightarrow> of_int m / 100 \<le> py_round x 2"
proof -
  assume "of_int m / 100 \<le> x"
  then have "of_int m \<le> x * 10 ^ 2" by simp
  then have "m \<le> round_half_even (x * 10 ^ 2)" by (rule round_half_even_ge)
  then have "(of_int m :: real) \<le> of_int (round_half_even (x * 10 ^ 2))" by simp
  then show ?thesis by (simp add: py_round_def divide_right_mono)
qed

lemma py_round2_le: "x \<le> of_int m / 100 \<Longrightarrow> py_round x 2 \<le> of_int m / 100"
proof -
  assume "x \<le> of_int m / 100"
  then have "x * 10 ^ 2 \<le> of_int m" by simp
  then have "round_half_even (x * 10 ^ 2) \<le> m" by (rule round_half_even_le)
  then have "(of_int (round_half_even (x * 10 ^ 2)) :: real) \<le> of_int m" by simp
  then show ?thesis by (simp add: py_round_def divide_right_mono)
qed

lemma py_round_zero: "py_round 0 n = 0"
  by (simp add: py_round_def round_half_even_def)

subsection \<open>The random source is only advanced\<close>

lemma same_source_refl: "same_source g g"
  by (simp add: same_source_def)

lemma same_source_trans: "same_source g g1 \<Longrightarrow> same_source g1 g2 \<Longrightarrow> same_source g g2"
  by (simp add: same_source_def)

lemma same_source_unit_samples: "same_source g g' \<Longrightarrow> unit_samples g \<Longrightarrow> unit_samples g'"
  by (simp add: same_source_def unit_samples_def)

lemma uniform_same: "same_source g (snd (uniform low high g))"
  by (simp add: same_source_def uniform_def)

lemma normal_same: "same_source g (snd (normal loc scale g))"
  by (simp add: same_source_def normal_def)

lemma draw_generation_same: "same_source g (snd (draw_generation i ts g))"
  by (simp add: draw_generation_def same_source_def uniform_def Let_def)

lemma draw_fuel_same: "same_source g (snd (draw_fuel i x g))"
  by (simp add: draw_fuel_def same_source_def uniform_def normal_def Let_def)

lemma gen_reading_same: "same_source g (snd (gen_reading n i ts g))"
proof -
  obtain x g1 where a: "draw_generation i ts g = (x, g1)" by (cases "draw_generation i ts g")
  obtain f g2 where b: "draw_fuel i x g1 = (f, g2)" by (cases "draw_fuel i x g1")
  have "same_source g g1" using draw_generation_same [of g i ts] a by simp
  moreover have "same_source g1 g2" using draw_fuel_same [of g1 i x] b by simp
  ultimately have "same_source g g2" by (rule same_source_trans)
  then show ?thesis
    using a b by (simp add: gen_reading_def uniform_def same_source_def split: prod.splits)
qed

lemma gen_reading_shape:
  "timestamp (fst (gen_reading n i ts g)) = ts"
  "asset_name (fst (gen_reading n i ts g)) = n"
  "asset_type (fst (gen_reading n i ts g)) = info_type i"
  "capacity (fst (gen_reading n i ts g)) = info_capacity i"
  by (simp_all add: gen_reading_def Let_def split: prod.splits)

lemma gen_reading_generation:
  "generation_mw (fst (gen_reading n i ts g)) = py_round (fst (draw_generation i ts g)) 2"
  by (simp add: gen_reading_def Let_def split: prod.splits)

lemma asset_rows_same: "same_source g (snd (asset_rows n i tss g))"
proof (induction tss arbitrary: g)
  case Nil
  show ?case by (simp add: same_source_refl)
next
  case (Cons ts tss)
  have "same_source g (snd (gen_reading n i ts g))" by (rule gen_reading_same)
  moreover have "same_source (snd (gen_reading n i ts g))
      (snd (asset_rows n i tss (snd (gen_reading n i ts g))))" by (rule Cons.IH)
  ultimately show ?case
    by (auto simp: Let_def split: prod.splits dest: same_source_trans)
qed

lemma asset_rows_sound:
  "r \<in> set (fst (asset_rows n i tss g)) \<Longrightarrow>
     \<exists>ts g'. ts \<in> set tss \<and> same_source g g' \<and> r = fst (gen_reading n i ts g')"
proof (induction tss arbitrary: g)
  case Nil
  then show ?case by simp
next
  case (Cons ts tss)
  let ?g1 = "snd (gen_reading n i ts g)"
  from Cons.prems
  have "r = fst (gen_reading n i ts g) \<or> r \<in> set (fst (asset_rows n i tss ?g1))"
    by (auto simp: Let_def split: prod.splits)
  then show ?case
  proof
    assume "r = fst (gen_reading n i ts g)"
    then show ?thesis using same_source_refl [of g] by auto
  next
    assume "r \<in> set (fst (asset_rows n i tss ?g1))"
    then obtain ts' g' where h: "ts' \<in> set tss" "same_source ?g1 g'"
        "r = fst (gen_reading n i ts' g')"
      using Cons.IH by blast
    have "same_source g g'" using gen_reading_same h(2) by (rule same_source_trans)
    with h show ?thesis by auto
  qed
qed

lemma asset_rows_complete:
  "ts \<in> set tss \<Longrightarrow>
     \<exists>g'. same_source g g' \<and> fst (gen_reading n i ts g') \<in> set (fst (asset_rows n i tss g))"
proof (induction tss arbitrary: g)
  case Nil
  then show ?case by simp
next
  case (Cons t tss)
  let ?g1 = "snd (gen_reading n i t g)"
  have unfold: "set (fst (asset_rows n i (t # tss) g)) =
      insert (fst (gen_reading n i t g)) (set (fst (asset_rows n i tss ?g1)))"
    by (simp add: Let_def split: prod.splits)
  show ?case
  proof (cases "ts = t")
    case True
    then show ?thesis using same_source_refl [of g] unfold by auto
  next
    case False
    with Cons.prems have "ts \<in> set tss" by simp
    then obtain g' where h: "same_source ?g1 g'"
        "fst (gen_reading n i ts g') \<in> set (fst (asset_rows n i tss ?g1))"
      using Cons.IH by blast
    have "same_source g g'" using gen_reading_same h(1) by (rule same_source_trans)
    with h(2) unfold show ?thesis by auto
  qed
qed

lemma all_rows_same: "same_source g (snd (all_rows assets tss g))"
proof (induction assets arbitrary: g)
  case Nil
  show ?case by (simp add: same_source_refl)
next
  case (Cons a assets)
  obtain n i where a: "a = (n, i)" by (cases a)
  have "same_source g (snd (asset_rows n i tss g))" by (rule asset_rows_same)
  moreover have "same_source (snd (asset_rows n i tss g))
      (snd (all_rows assets tss (snd (asset_rows n i tss g))))" by (rule Cons.IH)
  ultimately show ?case
    using a by (auto simp: Let_def split: prod.splits dest: same_source_trans)
qed

lemma all_rows_set:
  "set (fst (all_rows ((n, i) # assets) tss g)) =
     set (fst (asset_rows n i tss g)) \<union>
     set (fst (all_rows assets tss (snd (asset_rows n i tss g))))"
  by (simp add: Let_def split: prod.splits)

lemma all_rows_sound:
  "r \<in> set (fst (all_rows assets tss g)) \<Longrightarrow>
     \<exists>n i ts g'. (n, i) \<in> set assets \<and> ts \<in> set tss \<and> same_source g g' \<and>
        r = fst (gen_reading n i ts g')"
proof (induction assets arbitrary: g)
  case Nil
  then show ?case by simp
next
  case (Cons a assets)
  obtain n i where a: "a = (n, i)" by (cases a)
  let ?g1 = "snd (asset_rows n i tss g)"
  from Cons.prems a
  have "r \<in> set (fst (asset_rows n i tss g)) \<or> r \<in> set (fst (all_rows assets tss ?g1))"
    by (simp add: all_rows_set del: all_rows.simps)
  then show ?case
  proof
    assume "r \<in> set (fst (asset_rows n i tss g))"
    then obtain ts g' where "ts \<in> set tss" "same_source g g'" "r = fst (gen_reading n i ts g')"
      using asset_rows_sound by blast
    then show ?thesis using a by auto
  next
    assume "r \<in> set (fst (all_rows assets tss ?g1))"
    then obtain n' i' ts g' where h: "(n', i') \<in> set assets" "ts \<in> set tss"
        "same_source ?g1 g'" "r = fst (gen_reading n' i' ts g')"
      using Cons.IH by blast
    have "same_source g g'" using asset_rows_same h(3) by (rule same_source_trans)
    with h show ?thesis by auto
  qed
qed

lemma all_rows_complete:
  "(n, i) \<in> set assets \<Longrightarrow> ts \<in> set tss \<Longrightarrow>
     \<exists>g'. same_source g g' \<and> fst (gen_reading n i ts g') \<in> set (fst (all_rows assets tss g))"
proof (induction assets arbitrary: g)
  case Nil
  then show ?case by simp
next
  case (Cons a assets)
  obtain n0 i0 where a: "a = (n0, i0)" by (cases a)
  let ?g1 = "snd (asset_rows n0 i0 tss g)"
  show ?case
  proof (cases "(n, i) = (n0, i0)")
    case True
    obtain g' where "same_source g g'"
        "fst (gen_reading n i ts g') \<in> set (fst (asset_rows n i tss g))"
      using asset_rows_complete [OF Cons.prems(2)] by blast
    then show ?thesis using a True by (auto simp: all_rows_set simp del: all_rows.simps)
  next
    case False
    with Cons.prems a have "(n, i) \<in> set assets" by auto
    then obtain g' where h: "same_source ?g1 g'"
        "fst (gen_reading n i ts g') \<in> set (fst (all_rows assets tss ?g1))"
      using Cons.IH Cons.prems(2) by blast
    have "same_source g g'" using asset_rows_same h(1) by (rule same_source_trans)
    with h(2) a show ?thesis by (auto simp: all_rows_set simp del: all_rows.simps)
  qed
qed

lemma window_length: "length (window now) = 673"
  by (simp add: window_def date_range_def usec_per_day_def usec_per_hour_def usec_per_minute_def)

lemma window_start: "now - 7 * usec_per_day \<in> set (window now)"
  by (simp add: window_def date_range_def usec_per_day_def usec_per_hour_def usec_per_minute_def)

lemma generated_row:
  "r \<in> set (fst (generate_operational_data now g)) \<Longrightarrow>
     \<exists>n i ts g'. (n, i) \<in> set ASSETS \<and> ts \<in> set (window now) \<and> same_source g g' \<and>
        r = fst (gen_reading n i ts g')"
  unfolding generate_operational_data_def by (rule all_rows_sound)

lemma row_generated:
  "(n, i) \<in> set ASSETS \<Longrightarrow> ts \<in> set (window now) \<Longrightarrow>
     \<exists>g'. same_source g g' \<and>
        fst (gen_reading n i ts g') \<in> set (fst (generate_operational_data now g))"
  unfolding generate_operational_data_def by (rule all_rows_complete)

subsection \<open>Rows of the generated table\<close>

lemma gen_reading_non_thermal:
  assumes "info_type i \<noteq> ''thermal''"
  shows "fuel_consumed_tonnes (fst (gen_reading n i ts g)) = 0"
    and "coal_calorific_value_kcal (fst (gen_reading n i ts g)) = 0"
    and "emissions_co2_tonnes (fst (gen_reading n i ts g)) = 0"
  using assms
  by (simp_all add: gen_reading_def draw_fuel_def py_round_zero Let_def split: prod.splits)

lemma sample_solar_row:
  assumes "same_source sample_rng g'"
  shows "fst (gen_reading ''Karnataka Solar'' solar_info (12 * usec_per_hour) g') =
     sample_solar_reading"
proof -
  have u: "unit_src g' = (\<lambda>_. 1 / 2)"
    using assms by (simp add: same_source_def sample_rng_def)
  have h: "hour_of (12 * usec_per_hour) = 12"
    by (simp add: hour_of_def usec_per_hour_def usec_per_minute_def)
  have r1: "py_round 375 2 = 375" "py_round (75 / 2) 2 = 75 / 2" "py_round 90 2 = 90"
    by (simp_all add: py_round_def round_half_even_def Let_def)
  show ?thesis
    by (simp add: gen_reading_def draw_generation_def draw_fuel_def uniform_def solar_info_def sample_solar_reading_def
        u h r1 py_round_zero Let_def)
qed

text \<open>
  C1. In the table of \<open>generate_operational_data\<close>, for every clock reading and every
  state of the random source, each row whose asset type is not thermal has fuel consumed,
  calorific value and CO2 emissions equal to zero.
\<close>

theorem non_thermal_rows_zero:
  "\<forall>r \<in> set (fst (generate_operational_data now g)).
     asset_type r \<noteq> ''thermal'' \<longrightarrow>
       fuel_consumed_tonnes r = 0 \<and> coal_calorific_value_kcal r = 0 \<and>
       emissions_co2_tonnes r = 0"
proof (intro ballI impI)
  fix r
  assume "r \<in> set (fst (generate_operational_data now g))"
    and nt: "asset_type r \<noteq> ''thermal''"
  then obtain n i ts g' where r: "r = fst (gen_reading n i ts g')"
    using generated_row by blast
  with nt have "info_type i \<noteq> ''thermal''" by (simp add: gen_reading_shape)
  then show "fuel_consumed_tonnes r = 0 \<and> coal_calorific_value_kcal r = 0 \<and>
       emissions_co2_tonnes r = 0"
    unfolding r by (simp add: gen_reading_non_thermal)
qed

theorem non_thermal_rows_zero_witness:
  "sample_solar_reading \<in> set (fst (generate_operational_data sample_now sample_rng))
   \<and> asset_type sample_solar_reading \<noteq> ''thermal''
   \<and> fuel_consumed_tonnes sample_solar_reading = 0
   \<and> coal_calorific_value_kcal sample_solar_reading = 0
   \<and> emissions_co2_tonnes sample_solar_reading = 0"
proof -
  have a: "(''Karnataka Solar'', solar_info) \<in> set ASSETS"
    by (simp add: ASSETS_def solar_info_def)
  have "12 * usec_per_hour = sample_now - 7 * usec_per_day" by (simp add: sample_now_def)
  then have t: "12 * usec_per_hour \<in> set (window sample_now)"
    using window_start [of sample_now] by simp
  obtain g' where "same_source sample_rng g'"
      "fst (gen_reading ''Karnataka Solar'' solar_info (12 * usec_per_hour) g')
        \<in> set (fst (generate_operational_data sample_now sample_rng))"
    using row_generated [OF a t] by blast
  then have m: "sample_solar_reading
      \<in> set (fst (generate_operational_data sample_now sample_rng))"
    by (simp add: sample_solar_row)
  have nt: "asset_type sample_solar_reading \<noteq> ''thermal''"
    by (simp add: sample_solar_reading_def)
  from non_thermal_rows_zero [of sample_now sample_rng] m nt
  have "fuel_consumed_tonnes sample_solar_reading = 0
      \<and> coal_calorific_value_kcal sample_solar_reading = 0
      \<and> emissions_co2_tonnes sample_solar_reading = 0" by blast
  with m nt show ?thesis by blast
qed

subsection \<open>Bounds on the generation\<close>

lemma scaled_product_bounds:
  fixes c a b :: real
  assumes "0 \<le> c" "0 \<le> a" "a \<le> A" "0 \<le> b" "b \<le> B"
  shows "0 \<le> c * a * b" and "c * a * b \<le> c * A * B"
proof -
  show "0 \<le> c * a * b" using assms by simp
  have "c * a \<le> c * A" using assms by (simp add: mult_left_mono)
  moreover have "0 \<le> c * A" using assms by simp
  ultimately show "c * a * b \<le> c * A * B"
    using assms by (intro mult_mono) simp_all
qed

lemma scaled_bounds:
  fixes c a :: real
  assumes "0 \<le> c" "0 \<le> a" "a \<le> A"
  shows "0 \<le> c * a" and "c * a \<le> c * A"
  using assms by (simp_all add: mult_left_mono)

lemma uniform_range:
  assumes "unit_samples g" "low \<le> high"
  shows "low \<le> fst (uniform low high g)" and "fst (uniform low high g) \<le> high"
proof -
  let ?u = "unit_src g (unit_pos g)"
  have u: "0 \<le> ?u" "?u \<le> 1" using assms(1) by (simp_all add: unit_samples_def less_imp_le)
  have "0 \<le> (high - low) * ?u" using u assms(2) by simp
  then show "low \<le> fst (uniform low high g)" by (simp add: uniform_def)
  have "(high - low) * ?u \<le> (high - low) * 1"
    using u assms(2) by (intro mult_left_mono) simp_all
  then show "fst (uniform low high g) \<le> high" by (simp add: uniform_def)
qed

lemma solar_shape_bounds:
  "0 \<le> max 0 (- 0.1 * (of_int h - 12) ^ 2 + (1::real))"
  "max 0 (- 0.1 * (of_int h - 12) ^ 2 + (1::real)) \<le> 1"
  by simp_all

lemma wind_shape_bounds:
  "0 \<le> 1 + 0.1 * sin (x::real)" "1 + 0.1 * sin (x::real) \<le> 1.1"
proof -
  show "0 \<le> 1 + 0.1 * sin x" using sin_ge_minus_one [of x] by linarith
  show "1 + 0.1 * sin x \<le> 1.1" using sin_le_one [of x] by linarith
qed

lemma draw_generation_bounds:
  assumes g: "unit_samples g" and c: "0 \<le> info_capacity i"
  shows "0 \<le> fst (draw_generation i ts g)"
    and "fst (draw_generation i ts g) \<le> 1.2 * of_int (info_capacity i)"
proof -
  let ?c = "of_int (info_capacity i) * 0.75 :: real"
  have c0: "0 \<le> ?c" using c by simp
  have both: "0 \<le> fst (draw_generation i ts g)
      \<and> fst (draw_generation i ts g) \<le> ?c * 1.1"
  proof (cases "info_type i = ''solar''")
    case True
    let ?m = "max 0 (- 0.1 * (of_int (hour_of ts) - 12) ^ 2 + (1::real))"
    let ?u = "fst (uniform 0.9 1.1 g)"
    have e: "fst (draw_generation i ts g) = ?c * ?m * ?u"
      using True by (simp add: draw_generation_def Let_def split: prod.splits)
    have u: "0 \<le> ?u" "?u \<le> 1.1" using uniform_range [OF g, where low = "0.9" and high = "1.1"] by simp_all
    have "0 \<le> ?c * ?m * ?u" "?c * ?m * ?u \<le> ?c * 1 * 1.1"
      using scaled_product_bounds [OF c0 solar_shape_bounds u] by blast+
    then show ?thesis unfolding e by simp
  next
    case ns: False
    show ?thesis
    proof (cases "info_type i = ''wind''")
      case True
      let ?s = "1 + 0.1 * sin (of_int (hour_of ts) / 24 * 2 * pi)"
      let ?u = "fst (uniform 0.3 1.0 g)"
      have e: "fst (draw_generation i ts g) = ?c * ?u * ?s"
        using True ns by (simp add: draw_generation_def Let_def split: prod.splits)
      have u: "0 \<le> ?u" "?u \<le> 1" using uniform_range [OF g, where low = "0.3" and high = "1.0"] by simp_all
      have "0 \<le> ?c * ?u * ?s" "?c * ?u * ?s \<le> ?c * 1 * 1.1"
        using scaled_product_bounds [OF c0 u wind_shape_bounds] by blast+
      then show ?thesis unfolding e by simp
    next
      case nw: False
      show ?thesis
      proof (cases "info_type i = ''hydro''")
        case True
        let ?u = "fst (uniform 0.5 1.0 g)"
        have e: "fst (draw_generation i ts g) = ?c * ?u"
          using True ns nw by (simp add: draw_generation_def Let_def split: prod.splits)
        have u: "0 \<le> ?u" "?u \<le> 1" using uniform_range [OF g, where low = "0.5" and high = "1.0"] by simp_all
        have "0 \<le> ?c * ?u" "?c * ?u \<le> ?c * 1"
          using scaled_bounds [OF c0 u] by blast+
        moreover have "?c * 1 \<le> ?c * 1.1" using c0 by simp
        ultimately show ?thesis unfolding e by linarith
      next
        case False
        let ?u = "fst (uniform 0.85 1.05 g)"
        have e: "fst (draw_generation i ts g) = ?c * ?u"
          using False ns nw by (simp add: draw_generation_def Let_def split: prod.splits)
        have u: "0 \<le> ?u" "?u \<le> 1.05" using uniform_range [OF g, where low = "0.85" and high = "1.05"] by simp_all
        have "0 \<le> ?c * ?u" "?c * ?u \<le> ?c * 1.05"
          using scaled_bounds [OF c0 u] by blast+
        moreover have "?c * 1.05 \<le> ?c * 1.1" using c0 by simp
        ultimately show ?thesis unfolding e by linarith
      qed
    qed
  qed
  then show "0 \<le> fst (draw_generation i ts g)" by simp
  have "?c * 1.1 \<le> 1.2 * of_int (info_capacity i)" using c by simp
  with both show "fst (draw_generation i ts g) \<le> 1.2 * of_int (info_capacity i)" by linarith
qed

lemma assets_capacity_nonneg: "(n, i) \<in> set ASSETS \<Longrightarrow> 0 \<le> info_capacity i"
  by (auto simp: ASSETS_def)

lemma gen_reading_generation_bounds:
  assumes "unit_samples g" "0 \<le> info_capacity i"
  shows "0 \<le> generation_mw (fst (gen_reading n i ts g))"
    and "generation_mw (fst (gen_reading n i ts g)) \<le> 1.2 * of_int (info_capacity i)"
proof -
  let ?x = "fst (draw_generation i ts g)"
  have "of_int 0 / 100 \<le> ?x" using draw_generation_bounds(1) [OF assms] by simp
  then have "of_int 0 / 100 \<le> py_round ?x 2" by (rule py_round2_ge)
  then show "0 \<le> generation_mw (fst (gen_reading n i ts g))"
    by (simp add: gen_reading_generation)
  have "?x \<le> of_int (120 * info_capacity i) / 100"
    using draw_generation_bounds(2) [OF assms, of ts] by simp
  then have "py_round ?x 2 \<le> of_int (120 * info_capacity i) / 100" by (rule py_round2_le)
  then show "generation_mw (fst (gen_reading n i ts g)) \<le> 1.2 * of_int (info_capacity i)"
    by (simp add: gen_reading_generation)
qed

text \<open>
  C8. When the unit samples of the random source lie in \<open>[0, 1)\<close>, every row
  of the generated table, whatever its asset type, has a generation that is at least 0 and
  at most 1.2 times the rated capacity of its asset.
\<close>

theorem generation_within_capacity:
  assumes "unit_samples g"
  shows "\<forall>r \<in> set (fst (generate_operational_data now g)).
     0 \<le> generation_mw r \<and> generation_mw r \<le> 1.2 * of_int (capacity r)"
proof
  fix r
  assume "r \<in> set (fst (generate_operational_data now g))"
  then obtain n i ts g' where h: "(n, i) \<in> set ASSETS" "same_source g g'"
      "r = fst (gen_reading n i ts g')"
    using generated_row by blast
  have u: "unit_samples g'" using h(2) assms by (rule same_source_unit_samples)
  have c: "0 \<le> info_capacity i" using h(1) by (rule assets_capacity_nonneg)
  show "0 \<le> generation_mw r \<and> generation_mw r \<le> 1.2 * of_int (capacity r)"
    unfolding h(3) using gen_reading_generation_bounds [OF u c, of n ts]
    by (simp add: gen_reading_shape)
qed

lemma sample_unit_samples: "unit_samples sample_rng"
  by (simp add: unit_samples_def sample_rng_def)

lemma sample_window_start: "12 * usec_per_hour \<in> set (window sample_now)"
proof -
  have "12 * usec_per_hour = sample_now - 7 * usec_per_day" by (simp add: sample_now_def)
  then show ?thesis using window_start [of sample_now] by simp
qed

lemma sample_hydro_row:
  assumes "same_source sample_rng g'"
  shows "fst (gen_reading ''Himachal Hydro'' hydro_info (12 * usec_per_hour) g') =
     sample_hydro_reading"
proof -
  have u: "unit_src g' = (\<lambda>_. 1 / 2)"
    using assms by (simp add: same_source_def sample_rng_def)
  have r1: "py_round 135 2 = 135" "py_round (27 / 2) 2 = 27 / 2" "py_round 90 2 = 90"
    by (simp_all add: py_round_def round_half_even_def Let_def)
  show ?thesis
    by (simp add: gen_reading_def draw_generation_def draw_fuel_def uniform_def hydro_info_def
        sample_hydro_reading_def u r1 py_round_zero Let_def)
qed

theorem generation_within_capacity_witness:
  "unit_samples sample_rng
   \<and> sample_hydro_reading \<in> set (fst (generate_operational_data sample_now sample_rng))
   \<and> 0 \<le> generation_mw sample_hydro_reading
   \<and> generation_mw sample_hydro_reading \<le> 1.2 * of_int (capacity sample_hydro_reading)"
proof -
  have a: "(''Himachal Hydro'', hydro_info) \<in> set ASSETS"
    by (simp add: ASSETS_def hydro_info_def)
  obtain g' where "same_source sample_rng g'"
      "fst (gen_reading ''Himachal Hydro'' hydro_info (12 * usec_per_hour) g')
        \<in> set (fst (generate_operational_data sample_now sample_rng))"
    using row_generated [OF a sample_window_start] by blast
  then have m: "sample_hydro_reading
      \<in> set (fst (generate_operational_data sample_now sample_rng))"
    by (simp add: sample_hydro_row)
  from generation_within_capacity [OF sample_unit_samples, of sample_now] m
  have "0 \<le> generation_mw sample_hydro_reading
      \<and> generation_mw sample_hydro_reading \<le> 1.2 * of_int (capacity sample_hydro_reading)"
    by blast
  with m sample_unit_samples show ?thesis by blast
qed

subsection \<open>Grouping and column sums\<close>

lemma groupby_keys: "map fst (groupby key df) = sort (remdups (map key df))"
  by (simp add: groupby_def comp_def)

lemma groupby_member:
  "(k, grp) \<in> set (groupby key df) \<longleftrightarrow> k \<in> key ` set df \<and> grp = filter (\<lambda>r. key r = k) df"
  by (auto simp: groupby_def)

lemma groupby_length: "length (groupby key df) = card (key ` set df)"
proof -
  have "length (groupby key df) = length (remdups (map key df))" by (simp add: groupby_def)
  also have "\<dots> = card (set (map key df))" by (simp add: length_remdups_card_conv)
  finally show ?thesis by simp
qed

lemma groupby_empty: "groupby key [] = []"
  by (simp add: groupby_def)

lemma indicator_sum_list:
  "distinct ks \<Longrightarrow> a \<in> set ks \<Longrightarrow> sum_list (map (\<lambda>k. if a = k then v else 0) ks) = (v::real)"
proof (induction ks)
  case Nil
  then show ?case by simp
next
  case (Cons k ks)
  show ?case
  proof (cases "a = k")
    case True
    with Cons.prems have "a \<notin> set ks" by simp
    then have "sum_list (map (\<lambda>k. if a = k then v else 0) ks) = 0"
      by (induction ks) auto
    with True show ?thesis by simp
  next
    case False
    with Cons show ?thesis by simp
  qed
qed

lemma group_sums_total:
  fixes f :: "'r \<Rightarrow> real"
  assumes "distinct ks" "key ` set df \<subseteq> set ks"
  shows "sum_list (map (\<lambda>k. sum_list (map f (filter (\<lambda>r. key r = k) df))) ks)
       = sum_list (map f df)"
  using assms(2)
proof (induction df)
  case Nil
  show ?case by simp
next
  case (Cons x xs)
  have split: "(\<lambda>k. sum_list (map f (filter (\<lambda>r. key r = k) (x # xs)))) =
      (\<lambda>k. (if key x = k then f x else 0) + sum_list (map f (filter (\<lambda>r. key r = k) xs)))"
    by (rule ext) simp
  have "key x \<in> set ks" using Cons.prems by simp
  then have one: "sum_list (map (\<lambda>k. if key x = k then f x else 0) ks) = f x"
    using assms(1) by (simp add: indicator_sum_list)
  have rest: "sum_list (map (\<lambda>k. sum_list (map f (filter (\<lambda>r. key r = k) xs))) ks)
       = sum_list (map f xs)"
    using Cons by simp
  show ?case unfolding split by (simp add: sum_list_addf one rest)
qed

lemma groupby_column_sum:
  "column_sum (\<lambda>(k, grp). column_sum f grp) (groupby key df) = column_sum f df"
proof -
  let ?ks = "sort (remdups (map key df))"
  have "column_sum (\<lambda>(k, grp). column_sum f grp) (groupby key df)
      = sum_list (map (\<lambda>k. sum_list (map f (filter (\<lambda>r. key r = k) df))) ?ks)"
    by (simp add: column_sum_def groupby_def comp_def)
  also have "\<dots> = sum_list (map f df)"
    by (rule group_sums_total) simp_all
  finally show ?thesis by (simp add: column_sum_def)
qed

lemma sum_list_pos:
  "xs \<noteq> [] \<Longrightarrow> \<forall>x \<in> set xs. 0 < f x \<Longrightarrow> 0 < sum_list (map f xs :: real list)"
proof (induction xs)
  case Nil
  then show ?case by simp
next
  case (Cons x xs)
  have "0 \<le> sum_list (map f xs)" using Cons.prems(2) by (intro sum_list_nonneg) auto
  moreover have "0 < f x" using Cons.prems(2) by simp
  ultimately show ?case by simp
qed

subsection \<open>Scope 1 emissions\<close>

lemma scope1_dates:
  "map s1_date (calculate_scope1_emissions name df) =
     sort (remdups (map (\<lambda>r. date_of (timestamp r)) (thermal_rows (select_asset name df))))"
  by (simp add: calculate_scope1_emissions_def groupby_def comp_def Let_def)

lemma scope1_row:
  "row \<in> set (calculate_scope1_emissions name df) \<longleftrightarrow>
     (\<exists>d \<in> (\<lambda>r. date_of (timestamp r)) ` set (thermal_rows (select_asset name df)).
        row = \<lparr>s1_date = d,
          s1_generation_mw = column_sum generation_mw
            (filter (\<lambda>r. date_of (timestamp r) = d) (thermal_rows (select_asset name df))),
          s1_fuel_consumed_tonnes = column_sum fuel_consumed_tonnes
            (filter (\<lambda>r. date_of (timestamp r) = d) (thermal_rows (select_asset name df))),
          s1_emissions_co2_tonnes = column_sum emissions_co2_tonnes
            (filter (\<lambda>r. date_of (timestamp r) = d) (thermal_rows (select_asset name df)))\<rparr>)"
  by (auto simp: calculate_scope1_emissions_def groupby_def Let_def)

lemma scope1_column_sums:
  "column_sum s1_emissions_co2_tonnes (calculate_scope1_emissions name df) =
     column_sum emissions_co2_tonnes (thermal_rows (select_asset name df))"
  "column_sum s1_generation_mw (calculate_scope1_emissions name df) =
     column_sum generation_mw (thermal_rows (select_asset name df))"
proof -
  let ?t = "thermal_rows (select_asset name df)"
  let ?key = "\<lambda>r. date_of (timestamp r)"
  have "column_sum s1_emissions_co2_tonnes (calculate_scope1_emissions name df)
      = column_sum (\<lambda>(k, grp). column_sum emissions_co2_tonnes grp) (groupby ?key ?t)"
    by (simp add: calculate_scope1_emissions_def column_sum_def comp_def case_prod_unfold)
  then show "column_sum s1_emissions_co2_tonnes (calculate_scope1_emissions name df) =
     column_sum emissions_co2_tonnes ?t"
    by (simp add: groupby_column_sum)
  have "column_sum s1_generation_mw (calculate_scope1_emissions name df)
      = column_sum (\<lambda>(k, grp). column_sum generation_mw grp) (groupby ?key ?t)"
    by (simp add: calculate_scope1_emissions_def column_sum_def comp_def case_prod_unfold)
  then show "column_sum s1_generation_mw (calculate_scope1_emissions name df) =
     column_sum generation_mw ?t"
    by (simp add: groupby_column_sum)
qed

text \<open>
  C7. \<open>calculate_water_intensity\<close> returns as many rows as there are distinct
  pairs of calendar date and asset name in the source table.
\<close>

theorem water_intensity_row_count:
  "length (calculate_water_intensity df) =
     card ((\<lambda>r. (date_of (timestamp r), asset_name r)) ` set df)"
  by (simp add: calculate_water_intensity_def groupby_length)

text \<open>
  C6. When the filtered table has no thermal row, \<open>calculate_scope1_emissions\<close>
  returns the empty table (the model has no failing branch here, as the code has none).
\<close>

theorem scope1_empty_selection:
  "thermal_rows (select_asset name df) = [] \<Longrightarrow> calculate_scope1_emissions name df = []"
  by (simp add: calculate_scope1_emissions_def groupby_empty)

subsection \<open>The sample rows and table\<close>

lemma sample_thermal_row:
  assumes "same_source sample_rng g'"
  shows "fst (gen_reading ''Barmer Thermal'' thermal_info (12 * usec_per_hour) g') =
     sample_thermal_reading"
proof -
  have u: "unit_src g' = (\<lambda>_. 1 / 2)" "gauss_src g' = (\<lambda>_. 0)"
    using assms by (simp_all add: same_source_def sample_rng_def)
  have r1: "py_round (1881 / 2) 2 = 1881 / 2" "py_round (9405 / 4) 2 = 9405 / 4"
      "py_round (47025 / 8) 2 = 146953 / 25" "py_round (1881 / 20) 2 = 1881 / 20"
      "py_round 90 2 = 90"
    by (simp_all add: py_round_def round_half_even_def Let_def)
  show ?thesis
    by (simp add: gen_reading_def draw_generation_def draw_fuel_def uniform_def normal_def
        thermal_info_def sample_thermal_reading_def u r1 Let_def)
qed

lemma sample_night_row:
  assumes "same_source sample_rng g'"
  shows "fst (gen_reading ''Karnataka Solar'' solar_info 0 g') = sample_night_reading"
proof -
  have u: "unit_src g' = (\<lambda>_. 1 / 2)"
    using assms by (simp add: same_source_def sample_rng_def)
  have r1: "py_round 90 2 = 90"
    by (simp_all add: py_round_def round_half_even_def Let_def)
  show ?thesis
    by (simp add: gen_reading_def draw_generation_def draw_fuel_def uniform_def hour_of_def
        solar_info_def sample_night_reading_def u r1 py_round_zero Let_def)
qed

lemma sample_dates:
  "date_of (12 * usec_per_hour) = 0" "date_of (36 * usec_per_hour) = 1" "date_of 0 = 0"
  by (simp_all add: date_of_def usec_per_day_def usec_per_hour_def usec_per_minute_def)

lemma sample_scope1:
  "calculate_scope1_emissions None sample_table =
     [\<lparr>s1_date = 0, s1_generation_mw = 940.5, s1_fuel_consumed_tonnes = 2351.25,
       s1_emissions_co2_tonnes = 5878.12\<rparr>,
      \<lparr>s1_date = 1, s1_generation_mw = 940.5, s1_fuel_consumed_tonnes = 2351.25,
       s1_emissions_co2_tonnes = 5878.12\<rparr>]"
  by (simp add: calculate_scope1_emissions_def select_asset_def thermal_rows_def groupby_def
      column_sum_def sample_table_def sample_thermal_reading_def sample_solar_reading_def
      sample_hydro_reading_def sample_dates Let_def)

theorem scope1_empty_selection_witness:
  "thermal_rows (select_asset (Some ''Karnataka Solar'') sample_table) = []
   \<and> calculate_scope1_emissions (Some ''Karnataka Solar'') sample_table = []"
proof -
  have e: "thermal_rows (select_asset (Some ''Karnataka Solar'') sample_table) = []"
    by (simp add: select_asset_def thermal_rows_def sample_table_def sample_thermal_reading_def
        sample_solar_reading_def sample_hydro_reading_def)
  with scope1_empty_selection [of "Some ''Karnataka Solar''" sample_table] show ?thesis
    by simp
qed

subsection \<open>Water intensity\<close>

lemma groupby_set:
  "set (groupby key df) = (\<lambda>k. (k, filter (\<lambda>r. key r = k) df)) ` key ` set df"
  by (simp add: groupby_def)

lemma water_rows:
  "set (calculate_water_intensity df) =
     (\<lambda>r. \<lparr>w_date = date_of (timestamp r),
            w_asset_name = asset_name r,
            w_generation_mw = column_sum generation_mw (water_group df r),
            w_water_withdrawal_cum = column_sum water_withdrawal_cum (water_group df r),
            water_intensity = fdiv (column_sum water_withdrawal_cum (water_group df r))
              (column_sum generation_mw (water_group df r))\<rparr>) ` set df"
  by (simp add: calculate_water_intensity_def groupby_set image_image Let_def water_group_def)

lemma water_row_intensity:
  "w \<in> set (calculate_water_intensity df) \<Longrightarrow>
     water_intensity w = fdiv (w_water_withdrawal_cum w) (w_generation_mw w)"
  unfolding water_rows by auto

text \<open>
  C5. Every (date, asset) group of the source table has its row in the result of
  \<open>calculate_water_intensity\<close>, which is a total function; where the summed generation
  of a group is zero its intensity is not a finite number: it is \<open>nan\<close> when the summed
  water withdrawal is zero too, and a signed infinity otherwise.
\<close>

theorem zero_generation_intensity_marker:
  "(\<forall>r \<in> set df. \<exists>w \<in> set (calculate_water_intensity df).
       w_date w = date_of (timestamp r) \<and> w_asset_name w = asset_name r
       \<and> w_generation_mw w = column_sum generation_mw (water_group df r)
       \<and> w_water_withdrawal_cum w = column_sum water_withdrawal_cum (water_group df r))
   \<and> (\<forall>w \<in> set (calculate_water_intensity df). w_generation_mw w = 0 \<longrightarrow>
         \<not> is_finite (water_intensity w)
         \<and> water_intensity w =
             (if w_water_withdrawal_cum w = 0 then NaN
              else if 0 < w_water_withdrawal_cum w then PosInf else NegInf))"
proof (intro conjI ballI impI)
  fix r
  assume "r \<in> set df"
  then show "\<exists>w \<in> set (calculate_water_intensity df).
       w_date w = date_of (timestamp r) \<and> w_asset_name w = asset_name r
       \<and> w_generation_mw w = column_sum generation_mw (water_group df r)
       \<and> w_water_withdrawal_cum w = column_sum water_withdrawal_cum (water_group df r)"
    unfolding water_rows by auto
next
  fix w
  assume "w \<in> set (calculate_water_intensity df)" and z: "w_generation_mw w = 0"
  then have i: "water_intensity w = fdiv (w_water_withdrawal_cum w) 0"
    by (simp add: water_row_intensity)
  show "\<not> is_finite (water_intensity w)" unfolding i by (simp add: fdiv_def)
  show "water_intensity w =
             (if w_water_withdrawal_cum w = 0 then NaN
              else if 0 < w_water_withdrawal_cum w then PosInf else NegInf)"
    unfolding i by (simp add: fdiv_def)
qed

lemma sample_night_water:
  "calculate_water_intensity [sample_night_reading] =
     [\<lparr>w_date = 0, w_asset_name = ''Karnataka Solar'', w_generation_mw = 0,
       w_water_withdrawal_cum = 0, water_intensity = NaN\<rparr>]"
  by (simp add: calculate_water_intensity_def groupby_def column_sum_def fdiv_def
      sample_night_reading_def sample_dates Let_def)

theorem zero_generation_intensity_marker_witness:
  "\<lparr>w_date = 0, w_asset_name = ''Karnataka Solar'', w_generation_mw = 0,
       w_water_withdrawal_cum = 0, water_intensity = NaN\<rparr>
     \<in> set (calculate_water_intensity [sample_night_reading])
   \<and> column_sum generation_mw (water_group [sample_night_reading] sample_night_reading) = 0
   \<and> \<not> is_finite NaN"
proof -
  let ?w = "\<lparr>w_date = 0, w_asset_name = ''Karnataka Solar'', w_generation_mw = 0,
       w_water_withdrawal_cum = 0, water_intensity = NaN\<rparr>"
  have m: "?w \<in> set (calculate_water_intensity [sample_night_reading])"
    by (simp add: sample_night_water)
  have z: "w_generation_mw ?w = 0" by simp
  have g: "column_sum generation_mw (water_group [sample_night_reading] sample_night_reading) = 0"
    by (simp add: water_group_def column_sum_def sample_night_reading_def)
  from zero_generation_intensity_marker [of "[sample_night_reading]"] m z
  have "\<not> is_finite (water_intensity ?w)" by blast
  with m g show ?thesis by simp
qed

subsection \<open>Thermal generation is positive\<close>

lemma thermal_draw_lower:
  assumes g: "unit_samples g" and t: "info_type i = ''thermal''" and c: "0 \<le> info_capacity i"
  shows "0.85 * 0.75 * of_int (info_capacity i) \<le> fst (draw_generation i ts g)"
proof -
  let ?c = "of_int (info_capacity i) * 0.75 :: real"
  let ?u = "fst (uniform 0.85 1.05 g)"
  have e: "fst (draw_generation i ts g) = ?c * ?u"
    using t by (simp add: draw_generation_def Let_def split: prod.splits)
  have "0.85 \<le> ?u" using uniform_range(1) [OF g, where low = "0.85" and high = "1.05"] by simp
  moreover have "0 \<le> ?c" using c by simp
  ultimately have "?c * 0.85 \<le> ?c * ?u" by (intro mult_left_mono) simp_all
  then show ?thesis unfolding e by simp
qed

lemma assets_thermal: "(n, i) \<in> set ASSETS \<Longrightarrow> info_type i = ''thermal'' \<Longrightarrow> i = thermal_info"
  by (auto simp: ASSETS_def thermal_info_def)

lemma thermal_reading_lower:
  assumes "unit_samples g"
  shows "841.5 \<le> generation_mw (fst (gen_reading n thermal_info ts g))"
proof -
  have "0.85 * 0.75 * of_int (info_capacity thermal_info)
      \<le> fst (draw_generation thermal_info ts g)"
    using assms by (intro thermal_draw_lower) (simp_all add: thermal_info_def)
  then have "of_int 84150 / 100 \<le> fst (draw_generation thermal_info ts g)"
    by (simp add: thermal_info_def)
  then have "of_int 84150 / 100 \<le> py_round (fst (draw_generation thermal_info ts g)) 2"
    by (rule py_round2_ge)
  then show ?thesis by (simp add: gen_reading_generation)
qed

lemma generated_thermal_lower:
  assumes "unit_samples g" "r \<in> set (fst (generate_operational_data now g))"
    "asset_type r = ''thermal''"
  shows "841.5 \<le> generation_mw r"
proof -
  obtain n i ts g' where h: "(n, i) \<in> set ASSETS" "same_source g g'"
      "r = fst (gen_reading n i ts g')"
    using generated_row [OF assms(2)] by blast
  have "info_type i = ''thermal''" using assms(3) h(3) by (simp add: gen_reading_shape)
  then have i: "i = thermal_info" using h(1) by (simp add: assets_thermal)
  have "unit_samples g'" using h(2) assms(1) by (rule same_source_unit_samples)
  then show ?thesis unfolding h(3) i by (rule thermal_reading_lower)
qed

lemma generated_has_thermal:
  "\<exists>r \<in> set (fst (generate_operational_data now g)). asset_type r = ''thermal''"
proof -
  have "(''Barmer Thermal'', thermal_info) \<in> set ASSETS"
    by (simp add: ASSETS_def thermal_info_def)
  then obtain g' where "fst (gen_reading ''Barmer Thermal'' thermal_info (now - 7 * usec_per_day) g')
      \<in> set (fst (generate_operational_data now g))"
    using row_generated [OF _ window_start] by blast
  moreover have "asset_type (fst (gen_reading ''Barmer Thermal'' thermal_info
      (now - 7 * usec_per_day) g')) = ''thermal''"
    by (simp add: gen_reading_shape thermal_info_def)
  ultimately show ?thesis by blast
qed

lemma scope1_generation_pos:
  assumes "\<forall>r \<in> set df. asset_type r = ''thermal'' \<longrightarrow> 0 < generation_mw r"
    and "row \<in> set (calculate_scope1_emissions None df)"
  shows "0 < s1_generation_mw row"
proof -
  let ?t = "thermal_rows (select_asset None df)"
  obtain d where d: "d \<in> (\<lambda>r. date_of (timestamp r)) ` set ?t"
    and roweq: "row = \<lparr>s1_date = d,
          s1_generation_mw = column_sum generation_mw
            (filter (\<lambda>r. date_of (timestamp r) = d) ?t),
          s1_fuel_consumed_tonnes = column_sum fuel_consumed_tonnes
            (filter (\<lambda>r. date_of (timestamp r) = d) ?t),
          s1_emissions_co2_tonnes = column_sum emissions_co2_tonnes
            (filter (\<lambda>r. date_of (timestamp r) = d) ?t)\<rparr>"
    using assms(2) unfolding scope1_row by blast
  have row: "s1_generation_mw row =
      column_sum generation_mw (filter (\<lambda>r. date_of (timestamp r) = d) ?t)"
    unfolding roweq by simp
  let ?grp = "filter (\<lambda>r. date_of (timestamp r) = d) ?t"
  have ne: "?grp \<noteq> []" using d by (auto simp: filter_empty_conv)
  have "\<forall>r \<in> set ?grp. 0 < generation_mw r"
    using assms(1) by (auto simp: thermal_rows_def select_asset_def)
  with ne have "0 < sum_list (map generation_mw ?grp)" by (rule sum_list_pos)
  then show ?thesis by (simp add: row column_sum_def)
qed

lemma thermal_total_pos:
  assumes "\<forall>r \<in> set df. asset_type r = ''thermal'' \<longrightarrow> 0 < generation_mw r"
    and "\<exists>r \<in> set df. asset_type r = ''thermal''"
  shows "0 < column_sum s1_generation_mw (calculate_scope1_emissions None df)"
proof -
  let ?t = "thermal_rows (select_asset None df)"
  have ne: "?t \<noteq> []" using assms(2) by (auto simp: thermal_rows_def select_asset_def filter_empty_conv)
  have "\<forall>r \<in> set ?t. 0 < generation_mw r"
    using assms(1) by (auto simp: thermal_rows_def select_asset_def)
  with ne have "0 < sum_list (map generation_mw ?t)" by (rule sum_list_pos)
  then show ?thesis unfolding scope1_column_sums(2) by (simp add: column_sum_def)
qed

lemma water_intensity_nonempty: "df \<noteq> [] \<Longrightarrow> calculate_water_intensity df \<noteq> []"
proof -
  assume "df \<noteq> []"
  then have "card ((\<lambda>r. (date_of (timestamp r), asset_name r)) ` set df) \<noteq> 0"
    by (simp add: card_eq_0_iff)
  then have "length (calculate_water_intensity df) \<noteq> 0"
    by (simp add: calculate_water_intensity_def groupby_length)
  then show ?thesis by auto
qed

lemma brsr_report_returns:
  assumes "df \<noteq> []"
  shows "generate_brsr_report p df g =
     Inr (\<lparr>Reporting_Period = p,
            Scope1_Emissions_Total_tCO2e =
              column_sum s1_emissions_co2_tonnes (calculate_scope1_emissions None df),
            Energy_Generation_Total_MWh =
              column_sum s1_generation_mw (calculate_scope1_emissions None df),
            Emission_Intensity_kgCO2_per_MWh =
              fdiv (column_sum s1_emissions_co2_tonnes (calculate_scope1_emissions None df) * 1000)
                (column_sum s1_generation_mw (calculate_scope1_emissions None df)),
            Water_withdrawal_Total_m3 =
              column_sum w_water_withdrawal_cum (calculate_water_intensity df),
            Water_Intensity_m3_per_MWh =
              series_mean (map water_intensity (calculate_water_intensity df)),
            Renewable_Energy_Percentage =
              real (length (filter (\<lambda>w. renewable_name (w_asset_name w))
                 (calculate_water_intensity df)))
                / real (length (calculate_water_intensity df)) * 100,
            Data_Quality_Score = 95 + 5 * unit_src g (unit_pos g)\<rparr>,
          g\<lparr>unit_pos := Suc (unit_pos g)\<rparr>)"
  using water_intensity_nonempty [OF assms]
  by (simp add: generate_brsr_report_def uniform_def Let_def)

text \<open>
  C10. When the unit samples of the random source lie in \<open>[0, 1)\<close>: the generation
  drawn for a thermal asset of the registry is at least 0.85 x 0.75 x capacity before rounding;
  every thermal row of the generated table has a generation of at least that much, hence
  strictly positive; every per-date generation sum of \<open>calculate_scope1_emissions\<close> is
  strictly positive; and \<open>generate_brsr_report\<close> returns a report whose emission intensity
  is a finite quotient by a strictly positive total generation.
\<close>

theorem thermal_generation_positive:
  assumes "unit_samples g"
  shows "(\<forall>(n, i) \<in> set ASSETS. info_type i = ''thermal'' \<longrightarrow>
            0.85 * 0.75 * of_int (info_capacity i) \<le> fst (draw_generation i ts g))
   \<and> (\<forall>r \<in> set (fst (generate_operational_data now g)). asset_type r = ''thermal'' \<longrightarrow>
            0.85 * 0.75 * of_int (capacity r) \<le> generation_mw r \<and> 0 < generation_mw r)
   \<and> (\<forall>row \<in> set (calculate_scope1_emissions None (fst (generate_operational_data now g))).
            0 < s1_generation_mw row)
   \<and> (\<exists>rep g2. generate_brsr_report p (fst (generate_operational_data now g)) g1 = Inr (rep, g2)
          \<and> 0 < Energy_Generation_Total_MWh rep
          \<and> Emission_Intensity_kgCO2_per_MWh rep =
              Finite (Scope1_Emissions_Total_tCO2e rep * 1000 / Energy_Generation_Total_MWh rep))"
proof (intro conjI)
  let ?df = "fst (generate_operational_data now g)"
  show "\<forall>(n, i) \<in> set ASSETS. info_type i = ''thermal'' \<longrightarrow>
            0.85 * 0.75 * of_int (info_capacity i) \<le> fst (draw_generation i ts g)"
    using thermal_draw_lower [OF assms] assets_capacity_nonneg by blast
  have low: "\<forall>r \<in> set ?df. asset_type r = ''thermal'' \<longrightarrow> 841.5 \<le> generation_mw r"
    using generated_thermal_lower [OF assms] by blast
  have cap: "\<forall>r \<in> set ?df. asset_type r = ''thermal'' \<longrightarrow> capacity r = 1320"
  proof (intro ballI impI)
    fix r
    assume "r \<in> set ?df" and t: "asset_type r = ''thermal''"
    then obtain n i ts' g' where h: "(n, i) \<in> set ASSETS" "r = fst (gen_reading n i ts' g')"
      using generated_row by blast
    then have "i = thermal_info" using t by (simp add: assets_thermal gen_reading_shape)
    then show "capacity r = 1320" using h(2) by (simp add: gen_reading_shape thermal_info_def)
  qed
  show "\<forall>r \<in> set ?df. asset_type r = ''thermal'' \<longrightarrow>
            0.85 * 0.75 * of_int (capacity r) \<le> generation_mw r \<and> 0 < generation_mw r"
  proof (intro ballI impI)
    fix r
    assume r: "r \<in> set ?df" "asset_type r = ''thermal''"
    then have "841.5 \<le> generation_mw r" "capacity r = 1320" using low cap by blast+
    then show "0.85 * 0.75 * of_int (capacity r) \<le> generation_mw r \<and> 0 < generation_mw r"
      by simp
  qed
  then have pos: "\<forall>r \<in> set ?df. asset_type r = ''thermal'' \<longrightarrow> 0 < generation_mw r"
    by blast
  show "\<forall>row \<in> set (calculate_scope1_emissions None ?df). 0 < s1_generation_mw row"
    using scope1_generation_pos [OF pos] by blast
  have total: "0 < column_sum s1_generation_mw (calculate_scope1_emissions None ?df)"
    using pos generated_has_thermal by (rule thermal_total_pos)
  have ne: "?df \<noteq> []" using generated_has_thermal [of now g] by auto
  show "\<exists>rep g2. generate_brsr_report p ?df g1 = Inr (rep, g2)
          \<and> 0 < Energy_Generation_Total_MWh rep
          \<and> Emission_Intensity_kgCO2_per_MWh rep =
              Finite (Scope1_Emissions_Total_tCO2e rep * 1000 / Energy_Generation_Total_MWh rep)"
    unfolding brsr_report_returns [OF ne] using total by (simp add: fdiv_def)
qed

theorem thermal_generation_positive_witness:
  "unit_samples sample_rng
   \<and> (''Barmer Thermal'', thermal_info) \<in> set ASSETS
   \<and> info_type thermal_info = ''thermal''
   \<and> 0.85 * 0.75 * of_int (info_capacity thermal_info)
        \<le> fst (draw_generation thermal_info (12 * usec_per_hour) sample_rng)
   \<and> sample_thermal_reading \<in> set (fst (generate_operational_data sample_now sample_rng))
   \<and> asset_type sample_thermal_reading = ''thermal''
   \<and> 0 < generation_mw sample_thermal_reading
   \<and> calculate_scope1_emissions None (fst (generate_operational_data sample_now sample_rng)) \<noteq> []"
proof -
  let ?df = "fst (generate_operational_data sample_now sample_rng)"
  note inst = thermal_generation_positive [OF sample_unit_samples,
      of "12 * usec_per_hour" sample_now "''Q1-2024''" sample_rng]
  have a: "(''Barmer Thermal'', thermal_info) \<in> set ASSETS"
    by (simp add: ASSETS_def thermal_info_def)
  have t: "info_type thermal_info = ''thermal''" by (simp add: thermal_info_def)
  from inst a t have d: "0.85 * 0.75 * of_int (info_capacity thermal_info)
        \<le> fst (draw_generation thermal_info (12 * usec_per_hour) sample_rng)"
    by blast
  obtain g' where "same_source sample_rng g'"
      "fst (gen_reading ''Barmer Thermal'' thermal_info (12 * usec_per_hour) g') \<in> set ?df"
    using row_generated [OF a sample_window_start] by blast
  then have m: "sample_thermal_reading \<in> set ?df" by (simp add: sample_thermal_row)
  have ty: "asset_type sample_thermal_reading = ''thermal''"
    by (simp add: sample_thermal_reading_def)
  from inst m ty have p: "0 < generation_mw sample_thermal_reading" by blast
  have "(\<lambda>r. date_of (timestamp r)) ` set (thermal_rows (select_asset None ?df)) \<noteq> {}"
    using m ty by (auto simp: thermal_rows_def select_asset_def)
  then have "set (map s1_date (calculate_scope1_emissions None ?df)) \<noteq> {}"
    by (simp add: scope1_dates)
  then have ne: "calculate_scope1_emissions None ?df \<noteq> []" by auto
  from sample_unit_samples a t d m ty p ne show ?thesis by blast
qed

subsection \<open>The shape of the generated table\<close>

lemma window_hd: "\<exists>tss. window now = (now - 7 * usec_per_day) # tss"
proof -
  define k where "k = nat ((now - (now - 7 * usec_per_day)) div (15 * usec_per_minute))"
  have "\<not> now < now - 7 * usec_per_day"
    by (simp add: usec_per_day_def usec_per_hour_def usec_per_minute_def)
  then have "window now =
      map (\<lambda>j. now - 7 * usec_per_day + int j * (15 * usec_per_minute)) [0 ..< Suc k]"
    unfolding window_def date_range_def k_def by (simp only: if_False)
  moreover have "[0 ..< Suc k] = 0 # [Suc 0 ..< Suc k]" by (rule upt_conv_Cons) simp
  ultimately have "window now = (now - 7 * usec_per_day) #
      map (\<lambda>j. now - 7 * usec_per_day + int j * (15 * usec_per_minute)) [Suc 0 ..< Suc k]"
    by (simp del: upt_Suc)
  then show ?thesis by blast
qed

lemma asset_rows_Cons:
  "fst (asset_rows n i (ts # tss) g) =
     fst (gen_reading n i ts g) # fst (asset_rows n i tss (snd (gen_reading n i ts g)))"
  by (simp add: Let_def split: prod.splits)

lemma all_rows_Cons:
  "fst (all_rows ((n, i) # assets) tss g) =
     fst (asset_rows n i tss g) @ fst (all_rows assets tss (snd (asset_rows n i tss g)))"
  by (simp add: Let_def split: prod.splits)

lemma asset_rows_shape:
  "map (\<lambda>r. (timestamp r, asset_name r, asset_type r, capacity r)) (fst (asset_rows n i tss g))
     = map (\<lambda>ts. (ts, n, info_type i, info_capacity i)) tss"
proof (induction tss arbitrary: g)
  case Nil
  show ?case by simp
next
  case (Cons ts tss)
  show ?case
    unfolding asset_rows_Cons using Cons.IH [of "snd (gen_reading n i ts g)"]
    by (simp add: gen_reading_shape)
qed

lemma all_rows_shape:
  "map (\<lambda>r. (timestamp r, asset_name r, asset_type r, capacity r)) (fst (all_rows assets tss g))
     = concat (map (\<lambda>(n, i). map (\<lambda>ts. (ts, n, info_type i, info_capacity i)) tss) assets)"
proof (induction assets arbitrary: g)
  case Nil
  show ?case by simp
next
  case (Cons a assets)
  obtain n i where a: "a = (n, i)" by (cases a)
  show ?case
    unfolding a all_rows_Cons
    using Cons.IH [of "snd (asset_rows n i tss g)"] asset_rows_shape [of n i tss g]
    by simp
qed

lemma generate_first_row:
  "\<exists>rs. fst (generate_operational_data now g) =
     fst (gen_reading ''Barmer Thermal'' thermal_info (now - 7 * usec_per_day) g) # rs"
proof -
  obtain tss where w: "window now = (now - 7 * usec_per_day) # tss" using window_hd by blast
  have a: "ASSETS = (''Barmer Thermal'', thermal_info) # tl ASSETS"
    by (simp add: ASSETS_def thermal_info_def)
  show ?thesis
    unfolding generate_operational_data_def w
    by (subst a) (simp add: all_rows_Cons asset_rows_Cons del: all_rows.simps asset_rows.simps)
qed

text \<open>
  C4 (as amended). \<open>DataGenerator\<close> takes no seed: a call that passes one raises
  \<open>TypeError\<close>. A call without one returns a table whose shape is fixed by the clock
  reading alone, whatever the random state: 2692 rows, namely for each of the four assets
  in registry order the 673 quarter-hour timestamps of the trailing 7-day window, each row
  with the name, type and capacity of its asset.
\<close>

theorem reading_table_shape:
  "DataGenerator_init (Some seed) now g = Inl TypeError
   \<and> (\<exists>tbl g'. DataGenerator_init None now g = Inr (tbl, g')
        \<and> length tbl = 2692
        \<and> map (\<lambda>r. (timestamp r, asset_name r, asset_type r, capacity r)) tbl =
            concat (map (\<lambda>(n, i). map (\<lambda>ts. (ts, n, info_type i, info_capacity i)) (window now))
              ASSETS))"
proof -
  let ?tbl = "fst (generate_operational_data now g)"
  let ?shape = "\<lambda>r. (timestamp r, asset_name r, asset_type r, capacity r)"
  have s: "map ?shape ?tbl =
      concat (map (\<lambda>(n, i). map (\<lambda>ts. (ts, n, info_type i, info_capacity i)) (window now)) ASSETS)"
    unfolding generate_operational_data_def by (rule all_rows_shape)
  have "length (map ?shape ?tbl) = 2692"
    unfolding s by (simp add: ASSETS_def window_length)
  then have l: "length ?tbl = 2692" by simp
  show ?thesis
  proof (intro conjI exI)
    show "DataGenerator_init (Some seed) now g = Inl TypeError"
      by (simp add: DataGenerator_init_def)
    show "DataGenerator_init None now g = Inr (?tbl, snd (generate_operational_data now g))"
      by (simp add: DataGenerator_init_def)
    show "length ?tbl = 2692" by (rule l)
    show "map ?shape ?tbl =
      concat (map (\<lambda>(n, i). map (\<lambda>ts. (ts, n, info_type i, info_capacity i)) (window now)) ASSETS)"
      by (rule s)
  qed
qed

subsection \<open>No seed\<close>

lemma first_generation:
  "\<exists>rs. map generation_mw (fst (generate_operational_data now g)) =
     py_round (990 * (0.85 + 0.2 * unit_src g (unit_pos g))) 2 # rs"
proof -
  obtain rs where "fst (generate_operational_data now g) =
     fst (gen_reading ''Barmer Thermal'' thermal_info (now - 7 * usec_per_day) g) # rs"
    using generate_first_row by blast
  then have "map generation_mw (fst (generate_operational_data now g)) =
      py_round (990 * (0.85 + 0.2 * unit_src g (unit_pos g))) 2 # map generation_mw rs"
    by (simp add: gen_reading_generation draw_generation_def uniform_def thermal_info_def Let_def)
  then show ?thesis ..
qed

text \<open>
  The claim C4 as stated fails: a seed is not accepted, and two runs at the same clock
  reading from two states of the random source differ in their first generation value.
\<close>

theorem seed_determinism_counterexample:
  "DataGenerator_init (Some 42) sample_now sample_rng = Inl TypeError
   \<and> map_sum id fst (DataGenerator_init None sample_now sample_rng)
       \<noteq> map_sum id fst (DataGenerator_init None sample_now ramp_rng)"
proof -
  have r: "py_round (1881 / 2) 2 = 1881 / 2" "py_round (1815 / 2) 2 = 1815 / 2"
    by (simp_all add: py_round_def round_half_even_def Let_def)
  obtain rs where a: "map generation_mw (fst (generate_operational_data sample_now sample_rng)) =
      1881 / 2 # rs"
    using first_generation [of sample_now sample_rng] by (auto simp: sample_rng_def r)
  obtain rs' where b: "map generation_mw (fst (generate_operational_data sample_now ramp_rng)) =
      1815 / 2 # rs'"
    using first_generation [of sample_now ramp_rng] by (auto simp: ramp_rng_def r)
  have "fst (generate_operational_data sample_now sample_rng)
      \<noteq> fst (generate_operational_data sample_now ramp_rng)"
  proof
    assume "fst (generate_operational_data sample_now sample_rng)
      = fst (generate_operational_data sample_now ramp_rng)"
    with a b show False by simp
  qed
  then show ?thesis by (simp add: DataGenerator_init_def)
qed

subsection \<open>Repeated calls of the aggregator\<close>

text \<open>
  C3 (as amended). Two calls in a row of \<open>calculate_scope1_emissions\<close> or of
  \<open>calculate_water_intensity\<close> on one table return the same result. Two calls in a row
  of \<open>generate_brsr_report\<close> on a non-empty table both return, and their reports agree in
  every field except \<open>Data_Quality_Score\<close>, which each call draws afresh from the random
  source.
\<close>

theorem aggregator_repeatable_up_to_quality_score:
  "call_twice (scope1_call name df) g =
     Inr (calculate_scope1_emissions name df, calculate_scope1_emissions name df)
   \<and> call_twice (water_call df) g =
     Inr (calculate_water_intensity df, calculate_water_intensity df)
   \<and> (df \<noteq> [] \<longrightarrow>
        (\<exists>r1 r2. call_twice (generate_brsr_report p df) g = Inr (r1, r2)
           \<and> r2 = r1\<lparr>Data_Quality_Score := Data_Quality_Score r2\<rparr>
           \<and> Data_Quality_Score r1 = 95 + 5 * unit_src g (unit_pos g)
           \<and> Data_Quality_Score r2 = 95 + 5 * unit_src g (Suc (unit_pos g))))"
proof (intro conjI impI)
  show "call_twice (scope1_call name df) g =
     Inr (calculate_scope1_emissions name df, calculate_scope1_emissions name df)"
    by (simp add: call_twice_def scope1_call_def)
  show "call_twice (water_call df) g =
     Inr (calculate_water_intensity df, calculate_water_intensity df)"
    by (simp add: call_twice_def water_call_def)
  assume ne: "df \<noteq> []"
  show "\<exists>r1 r2. call_twice (generate_brsr_report p df) g = Inr (r1, r2)
           \<and> r2 = r1\<lparr>Data_Quality_Score := Data_Quality_Score r2\<rparr>
           \<and> Data_Quality_Score r1 = 95 + 5 * unit_src g (unit_pos g)
           \<and> Data_Quality_Score r2 = 95 + 5 * unit_src g (Suc (unit_pos g))"
    by (simp add: call_twice_def brsr_report_returns [OF ne])
qed

theorem aggregator_repeatable_up_to_quality_score_witness:
  "sample_table \<noteq> []
   \<and> (\<exists>r1 r2. call_twice (generate_brsr_report ''Q1-2024'' sample_table) ramp_rng = Inr (r1, r2)
        \<and> r2 = r1\<lparr>Data_Quality_Score := 385 / 4\<rparr>
        \<and> Data_Quality_Score r1 = 290 / 3)"
proof -
  have ne: "sample_table \<noteq> []" by (simp add: sample_table_def)
  with aggregator_repeatable_up_to_quality_score
    [of None sample_table ramp_rng "''Q1-2024''"]
  obtain r1 r2 where h: "call_twice (generate_brsr_report ''Q1-2024'' sample_table) ramp_rng
        = Inr (r1, r2)"
      "r2 = r1\<lparr>Data_Quality_Score := Data_Quality_Score r2\<rparr>"
      "Data_Quality_Score r1 = 95 + 5 * unit_src ramp_rng (unit_pos ramp_rng)"
      "Data_Quality_Score r2 = 95 + 5 * unit_src ramp_rng (Suc (unit_pos ramp_rng))"
    by blast
  have "Data_Quality_Score r1 = 290 / 3" "Data_Quality_Score r2 = 385 / 4"
    using h(3,4) by (simp_all add: ramp_rng_def)
  with h(1,2) ne show ?thesis by auto
qed

text \<open>
  The claim C3 as stated fails for \<open>generate_brsr_report\<close>: on the sample table, two
  calls in a row return reports with different quality scores.
\<close>

theorem aggregator_idempotence_counterexample:
  "(case call_twice (generate_brsr_report ''Q1-2024'' sample_table) ramp_rng of
      Inl e \<Rightarrow> False
    | Inr (r1, r2) \<Rightarrow>
        Data_Quality_Score r1 = 290 / 3 \<and> Data_Quality_Score r2 = 385 / 4 \<and> r1 \<noteq> r2)"
proof -
  have ne: "sample_table \<noteq> []" by (simp add: sample_table_def)
  have "(290 / 3 :: real) \<noteq> 385 / 4" by simp
  then show ?thesis
    by (auto simp: call_twice_def brsr_report_returns [OF ne] ramp_rng_def)
qed

subsection \<open>Evaluating binary64 sums\<close>

lemma fl64_zero: "fl64 0 = 0"
  by (simp add: fl64_def)

lemma fl64_at:
  assumes "2 ^ n \<le> x" "x < 2 ^ Suc n" "n \<le> 52"
  shows "fl64 x = of_int (round_half_even (x * 2 ^ (52 - n))) / 2 ^ (52 - n)"
proof -
  have "(0::real) < 2 ^ n" by simp
  with assms(1) have pos: "0 < x" by linarith
  have a: "2 powr of_int (int n) = (2 ^ n :: real)" by (simp add: powr_realpow)
  have "(of_int (int n + 1) :: real) = real (Suc n)" by simp
  then have b: "2 powr of_int (int n + 1) = (2 ^ Suc n :: real)"
    by (simp only: powr_realpow zero_less_numeral)
  have "2 powr of_int (int n) \<le> x \<and> x < 2 powr of_int (int n + 1)"
    unfolding a b using assms(1,2) by blast
  then have e: "\<lfloor>log 2 x\<rfloor> = int n"
    using pos floor_log_eq_powr_iff [of x 2 "int n"] by simp
  have "(of_int (int n - 52) :: real) = - real (52 - n)" using assms(3) by simp
  then have "2 powr of_int (int n - 52) = 2 powr (- real (52 - n))" by (simp only:)
  also have "\<dots> = inverse (2 powr real (52 - n))" by (rule powr_minus)
  also have "\<dots> = inverse (2 ^ (52 - n))" by (simp only: powr_realpow zero_less_numeral)
  finally have q: "2 powr of_int (int n - 52) = inverse (2 ^ (52 - n) :: real)" .
  have nz: "(x = 0) = False" and ax: "\<bar>x\<bar> = x" using pos by simp_all
  have "fl64 x = (let e = \<lfloor>log 2 x\<rfloor>; q = 2 powr of_int (e - 52)
            in of_int (round_half_even (x / q)) * q)"
    by (simp only: fl64_def nz ax if_False)
  also have "\<dots> = of_int (round_half_even (x / inverse (2 ^ (52 - n))))
       * inverse (2 ^ (52 - n))"
    by (simp only: Let_def e q)
  also have "\<dots> = of_int (round_half_even (x * 2 ^ (52 - n))) / 2 ^ (52 - n)"
    by (simp only: divide_inverse inverse_inverse_eq)
  finally show ?thesis .
qed

lemma rhe_down: "\<lfloor>y\<rfloor> = r \<Longrightarrow> y - of_int r < 1 / 2 \<Longrightarrow> round_half_even y = r"
  by (simp add: round_half_even_def Let_def)

lemma rhe_up: "\<lfloor>y\<rfloor> = r - 1 \<Longrightarrow> 1 / 2 < y - of_int (r - 1) \<Longrightarrow> round_half_even y = r"
  by (simp add: round_half_even_def Let_def)

lemma rhe_tie_even:
  "\<lfloor>y\<rfloor> = r \<Longrightarrow> y - of_int r = 1 / 2 \<Longrightarrow> even r \<Longrightarrow> round_half_even y = r"
  by (simp add: round_half_even_def Let_def)

lemma rhe_tie_odd:
  "\<lfloor>y\<rfloor> = r - 1 \<Longrightarrow> y - of_int (r - 1) = 1 / 2 \<Longrightarrow> odd (r - 1) \<Longrightarrow>
     round_half_even y = r"
  by (simp add: round_half_even_def Let_def)

lemma nearest_em1: "fl64 (162999 / 25) = em1"
proof -
  have r: "round_half_even ((162999 / 25) * 2 ^ (52 - 12)) = 7168771832634409"
    by (rule rhe_up) simp_all
  have "fl64 (162999 / 25) = of_int (round_half_even ((162999 / 25) * 2 ^ (52 - 12))) / 2 ^ (52 - 12)"
    by (rule fl64_at) simp_all
  then show ?thesis unfolding em1_def r by simp
qed

lemma nearest_em2: "fl64 (159108 / 25) = em2"
proof -
  have r: "round_half_even ((159108 / 25) * 2 ^ (52 - 12)) = 6997643842887352"
    by (rule rhe_down) simp_all
  have "fl64 (159108 / 25) = of_int (round_half_even ((159108 / 25) * 2 ^ (52 - 12))) / 2 ^ (52 - 12)"
    by (rule fl64_at) simp_all
  then show ?thesis unfolding em2_def r by simp
qed

lemma nearest_em3: "fl64 (575703 / 100) = em3"
proof -
  have r: "round_half_even ((575703 / 100) * 2 ^ (52 - 12)) = 6329921426455265"
    by (rule rhe_down) simp_all
  have "fl64 (575703 / 100) = of_int (round_half_even ((575703 / 100) * 2 ^ (52 - 12))) / 2 ^ (52 - 12)"
    by (rule fl64_at) simp_all
  then show ?thesis unfolding em3_def r by simp
qed

lemma nearest_em4: "fl64 (109321 / 20) = em4"
proof -
  have r: "round_half_even ((109321 / 20) * 2 ^ (52 - 12)) = 6009985533005005"
    by (rule rhe_up) simp_all
  have "fl64 (109321 / 20) = of_int (round_half_even ((109321 / 20) * 2 ^ (52 - 12))) / 2 ^ (52 - 12)"
    by (rule fl64_at) simp_all
  then show ?thesis unfolding em4_def r by simp
qed

lemma fl64_em1: "fl64 em1 = em1"
proof -
  have r: "round_half_even ((7168771832634409 / 2 ^ 40) * 2 ^ (52 - 12)) = 7168771832634409"
    by (rule rhe_down) simp_all
  have "fl64 (7168771832634409 / 2 ^ 40) = of_int (round_half_even ((7168771832634409 / 2 ^ 40) * 2 ^ (52 - 12))) / 2 ^ (52 - 12)"
    by (rule fl64_at) simp_all
  then show ?thesis unfolding em1_def r by simp
qed

lemma fl64_em2: "fl64 em2 = em2"
proof -
  have r: "round_half_even ((874705480360919 / 2 ^ 37) * 2 ^ (52 - 12)) = 6997643842887352"
    by (rule rhe_down) simp_all
  have "fl64 (874705480360919 / 2 ^ 37) = of_int (round_half_even ((874705480360919 / 2 ^ 37) * 2 ^ (52 - 12))) / 2 ^ (52 - 12)"
    by (rule fl64_at) simp_all
  then show ?thesis unfolding em2_def r by simp
qed

lemma fl64_em3: "fl64 em3 = em3"
proof -
  have r: "round_half_even ((6329921426455265 / 2 ^ 40) * 2 ^ (52 - 12)) = 6329921426455265"
    by (rule rhe_down) simp_all
  have "fl64 (6329921426455265 / 2 ^ 40) = of_int (round_half_even ((6329921426455265 / 2 ^ 40) * 2 ^ (52 - 12))) / 2 ^ (52 - 12)"
    by (rule fl64_at) simp_all
  then show ?thesis unfolding em3_def r by simp
qed

lemma fl64_em4: "fl64 em4 = em4"
proof -
  have r: "round_half_even ((6009985533005005 / 2 ^ 40) * 2 ^ (52 - 12)) = 6009985533005005"
    by (rule rhe_down) simp_all
  have "fl64 (6009985533005005 / 2 ^ 40) = of_int (round_half_even ((6009985533005005 / 2 ^ 40) * 2 ^ (52 - 12))) / 2 ^ (52 - 12)"
    by (rule fl64_at) simp_all
  then show ?thesis unfolding em4_def r by simp
qed

lemma fl64_sub12: "fl64 sub12 = sub12"
proof -
  have r: "round_half_even ((442700489860055 / 2 ^ 35) * 2 ^ (52 - 13)) = 7083207837760880"
    by (rule rhe_down) simp_all
  have "fl64 (442700489860055 / 2 ^ 35) = of_int (round_half_even ((442700489860055 / 2 ^ 35) * 2 ^ (52 - 13))) / 2 ^ (52 - 13)"
    by (rule fl64_at) simp_all
  then show ?thesis unfolding sub12_def r by simp
qed

lemma fl64_sub34: "fl64 sub34 = sub34"
proof -
  have r: "round_half_even ((6169953479730135 / 2 ^ 39) * 2 ^ (52 - 13)) = 6169953479730135"
    by (rule rhe_down) simp_all
  have "fl64 (6169953479730135 / 2 ^ 39) = of_int (round_half_even ((6169953479730135 / 2 ^ 39) * 2 ^ (52 - 13))) / 2 ^ (52 - 13)"
    by (rule fl64_at) simp_all
  then show ?thesis unfolding sub34_def r by simp
qed

lemma fadd_em1_em2: "fadd em1 em2 = sub12"
proof -
  have r: "round_half_even ((7168771832634409 / 2 ^ 40 + 874705480360919 / 2 ^ 37) * 2 ^ (52 - 13)) = 7083207837760880"
    by (rule rhe_tie_even) simp_all
  have "fl64 (7168771832634409 / 2 ^ 40 + 874705480360919 / 2 ^ 37) = of_int (round_half_even ((7168771832634409 / 2 ^ 40 + 874705480360919 / 2 ^ 37) * 2 ^ (52 - 13))) / 2 ^ (52 - 13)"
    by (rule fl64_at) simp_all
  then show ?thesis unfolding fadd_def em1_def em2_def sub12_def r by simp
qed

lemma fadd_em3_em4: "fadd em3 em4 = sub34"
proof -
  have r: "round_half_even ((6329921426455265 / 2 ^ 40 + 6009985533005005 / 2 ^ 40) * 2 ^ (52 - 13)) = 6169953479730135"
    by (rule rhe_down) simp_all
  have "fl64 (6329921426455265 / 2 ^ 40 + 6009985533005005 / 2 ^ 40) = of_int (round_half_even ((6329921426455265 / 2 ^ 40 + 6009985533005005 / 2 ^ 40) * 2 ^ (52 - 13))) / 2 ^ (52 - 13)"
    by (rule fl64_at) simp_all
  then show ?thesis unfolding fadd_def em3_def em4_def sub34_def r by simp
qed

lemma fadd_sub12_sub34: "fadd sub12 sub34 = total_by_date"
proof -
  have r: "round_half_even ((442700489860055 / 2 ^ 35 + 6169953479730135 / 2 ^ 39) * 2 ^ (52 - 14)) = 6626580658745508"
    by (rule rhe_tie_odd) simp_all
  have "fl64 (442700489860055 / 2 ^ 35 + 6169953479730135 / 2 ^ 39) = of_int (round_half_even ((442700489860055 / 2 ^ 35 + 6169953479730135 / 2 ^ 39) * 2 ^ (52 - 14))) / 2 ^ (52 - 14)"
    by (rule fl64_at) simp_all
  then show ?thesis unfolding fadd_def sub12_def sub34_def total_by_date_def r by simp
qed

lemma fadd_sub12_em3: "fadd sub12 em3 = run123"
proof -
  have r: "round_half_even ((442700489860055 / 2 ^ 35 + 6329921426455265 / 2 ^ 40) * 2 ^ (52 - 14)) = 5124084275494256"
    by (rule rhe_down) simp_all
  have "fl64 (442700489860055 / 2 ^ 35 + 6329921426455265 / 2 ^ 40) = of_int (round_half_even ((442700489860055 / 2 ^ 35 + 6329921426455265 / 2 ^ 40) * 2 ^ (52 - 14))) / 2 ^ (52 - 14)"
    by (rule fl64_at) simp_all
  then show ?thesis unfolding fadd_def sub12_def em3_def run123_def r by simp
qed

lemma fadd_run123_em4: "fadd run123 em4 = total_flat"
proof -
  have r: "round_half_even ((320255267218391 / 2 ^ 34 + 6009985533005005 / 2 ^ 40) * 2 ^ (52 - 14)) = 6626580658745507"
    by (rule rhe_down) simp_all
  have "fl64 (320255267218391 / 2 ^ 34 + 6009985533005005 / 2 ^ 40) = of_int (round_half_even ((320255267218391 / 2 ^ 34 + 6009985533005005 / 2 ^ 40) * 2 ^ (52 - 14))) / 2 ^ (52 - 14)"
    by (rule fl64_at) simp_all
  then show ?thesis unfolding fadd_def run123_def em4_def total_flat_def r by simp
qed

lemma fsub_zero: "fsub x 0 = fl64 x"
  by (simp add: fsub_def)

lemma fadd_zero: "fadd 0 x = fl64 x"
  by (simp add: fadd_def)

lemma fsub_self: "fsub x x = 0"
  by (simp add: fsub_def fl64_zero)

lemma group_sum_pair: "fl64 x = x \<Longrightarrow> fl64 y = y \<Longrightarrow> group_sum [x, y] = fadd x y"
  by (simp add: group_sum_def Let_def fsub_zero fadd_zero fsub_self)

lemma rounding_dates:
  "date_of (12 * usec_per_hour) = 0" "date_of (13 * usec_per_hour) = 0"
  "date_of (36 * usec_per_hour) = 1" "date_of (37 * usec_per_hour) = 1"
  by (simp_all add: date_of_def usec_per_day_def usec_per_hour_def usec_per_minute_def)

lemma rounding_table_by_date: "scope1_emissions_binary64 rounding_table = [sub12, sub34]"
  by (simp add: scope1_emissions_binary64_def rounding_table_def groupby_def thermal_rows_def
      select_asset_def rounding_dates group_sum_pair fl64_em1 fl64_em2 fl64_em3 fl64_em4
      fadd_em1_em2 fadd_em3_em4)

lemma rounding_table_flat:
  "map emissions_co2_tonnes (filter (\<lambda>r. asset_type r = ''thermal'') rounding_table)
     = [em1, em2, em3, em4]"
  by (simp add: rounding_table_def)

text \<open>
  The claim C2 as stated fails in binary64: on four thermal readings, two on each of
  two dates, the emissions column of the result sums to 24107.36 and the emissions of the
  thermal rows sum to 24107.359999999997.
\<close>

theorem scope1_total_rounding_counterexample:
  "series_sum (scope1_emissions_binary64 rounding_table) = Some total_by_date
   \<and> series_sum (map emissions_co2_tonnes
         (filter (\<lambda>r. asset_type r = ''thermal'') rounding_table)) = Some total_flat
   \<and> total_by_date \<noteq> total_flat"
proof (intro conjI)
  show "series_sum (scope1_emissions_binary64 rounding_table) = Some total_by_date"
    unfolding rounding_table_by_date
    by (simp add: series_sum_def fadd_zero fl64_sub12 fadd_sub12_sub34)
  show "series_sum (map emissions_co2_tonnes
         (filter (\<lambda>r. asset_type r = ''thermal'') rounding_table)) = Some total_flat"
    unfolding rounding_table_flat
    by (simp add: series_sum_def fadd_zero fl64_em1 fadd_em1_em2 fadd_sub12_em3 fadd_run123_em4)
  show "total_by_date \<noteq> total_flat"
    by (simp add: total_by_date_def total_flat_def)
qed

subsection \<open>The groups partition the rows\<close>

lemma groups_partition:
  "distinct ks \<Longrightarrow>
     mset (concat (map (\<lambda>k. filter (\<lambda>r. key r = k) xs) ks))
       = mset (filter (\<lambda>r. key r \<in> set ks) xs)"
proof (induction ks)
  case Nil
  show ?case by simp
next
  case (Cons k ks)
  then have k: "k \<notin> set ks" and d: "distinct ks" by simp_all
  have "mset (filter (\<lambda>r. key r = k) xs) + mset (filter (\<lambda>r. key r \<in> set ks) xs)
      = mset (filter (\<lambda>r. key r \<in> set (k # ks)) xs)"
    using k by (induction xs) auto
  then show ?case using Cons.IH [OF d] by simp
qed

lemma groupby_partition: "mset (concat (map snd (groupby key xs))) = mset xs"
proof -
  let ?ks = "sort (remdups (map key xs))"
  have "map snd (groupby key xs) = map (\<lambda>k. filter (\<lambda>r. key r = k) xs) ?ks"
    by (simp add: groupby_def comp_def)
  moreover have "mset (concat (map (\<lambda>k. filter (\<lambda>r. key r = k) xs) ?ks))
      = mset (filter (\<lambda>r. key r \<in> set ?ks) xs)"
    by (rule groups_partition) simp
  moreover have "filter (\<lambda>r. key r \<in> set ?ks) xs = xs" by (simp add: filter_id_conv)
  ultimately show ?thesis by simp
qed

text \<open>
  C2 (as amended). Without an asset filter, every row of
  \<open>calculate_scope1_emissions\<close> carries the calendar date of some thermal reading of the
  source table; the row of a date aggregates exactly the thermal readings of that date, in
  the exact sums as in the binary64 ones; and the per-date groups hold every thermal reading
  of the table exactly as often as the table does, so that the emissions column adds up the
  same values as the thermal rows do.
\<close>

theorem scope1_unfiltered_dates_and_groups:
  "(\<forall>row \<in> set (calculate_scope1_emissions None df).
      \<exists>r \<in> set df. asset_type r = ''thermal'' \<and> date_of (timestamp r) = s1_date row)
   \<and> (\<forall>(d, grp) \<in> set (groupby (\<lambda>r. date_of (timestamp r))
                          (filter (\<lambda>r. asset_type r = ''thermal'') df)).
         grp = filter (\<lambda>r. asset_type r = ''thermal'' \<and> date_of (timestamp r) = d) df)
   \<and> calculate_scope1_emissions None df =
       map (\<lambda>(d, grp).
            \<lparr>s1_date = d,
             s1_generation_mw = column_sum generation_mw grp,
             s1_fuel_consumed_tonnes = column_sum fuel_consumed_tonnes grp,
             s1_emissions_co2_tonnes = column_sum emissions_co2_tonnes grp\<rparr>)
         (groupby (\<lambda>r. date_of (timestamp r)) (filter (\<lambda>r. asset_type r = ''thermal'') df))
   \<and> scope1_emissions_binary64 df =
       map (\<lambda>(d, grp). group_sum (map emissions_co2_tonnes grp))
         (groupby (\<lambda>r. date_of (timestamp r)) (filter (\<lambda>r. asset_type r = ''thermal'') df))
   \<and> mset (concat (map snd (groupby (\<lambda>r. date_of (timestamp r))
                               (filter (\<lambda>r. asset_type r = ''thermal'') df))))
       = mset (filter (\<lambda>r. asset_type r = ''thermal'') df)"
proof (intro conjI)
  show "\<forall>row \<in> set (calculate_scope1_emissions None df).
      \<exists>r \<in> set df. asset_type r = ''thermal'' \<and> date_of (timestamp r) = s1_date row"
    by (fastforce simp: scope1_row select_asset_def thermal_rows_def)
  show "\<forall>(d, grp) \<in> set (groupby (\<lambda>r. date_of (timestamp r))
                          (filter (\<lambda>r. asset_type r = ''thermal'') df)).
         grp = filter (\<lambda>r. asset_type r = ''thermal'' \<and> date_of (timestamp r) = d) df"
    by (auto simp: groupby_member conj_commute)
  show "calculate_scope1_emissions None df =
       map (\<lambda>(d, grp).
            \<lparr>s1_date = d,
             s1_generation_mw = column_sum generation_mw grp,
             s1_fuel_consumed_tonnes = column_sum fuel_consumed_tonnes grp,
             s1_emissions_co2_tonnes = column_sum emissions_co2_tonnes grp\<rparr>)
         (groupby (\<lambda>r. date_of (timestamp r)) (filter (\<lambda>r. asset_type r = ''thermal'') df))"
    by (simp add: calculate_scope1_emissions_def select_asset_def thermal_rows_def)
  show "scope1_emissions_binary64 df =
       map (\<lambda>(d, grp). group_sum (map emissions_co2_tonnes grp))
         (groupby (\<lambda>r. date_of (timestamp r)) (filter (\<lambda>r. asset_type r = ''thermal'') df))"
    by (simp add: scope1_emissions_binary64_def select_asset_def thermal_rows_def)
  show "mset (concat (map snd (groupby (\<lambda>r. date_of (timestamp r))
                               (filter (\<lambda>r. asset_type r = ''thermal'') df))))
       = mset (filter (\<lambda>r. asset_type r = ''thermal'') df)"
    by (rule groupby_partition)
qed

lemma sample_groups:
  "groupby (\<lambda>r. date_of (timestamp r)) (filter (\<lambda>r. asset_type r = ''thermal'') sample_table)
     = [(0, [sample_thermal_reading]),
        (1, [sample_thermal_reading\<lparr>timestamp := 36 * usec_per_hour\<rparr>])]"
  by (simp add: groupby_def sample_table_def sample_thermal_reading_def sample_solar_reading_def
      sample_hydro_reading_def sample_dates)

theorem scope1_unfiltered_dates_and_groups_witness:
  "\<lparr>s1_date = 1, s1_generation_mw = 940.5, s1_fuel_consumed_tonnes = 2351.25,
       s1_emissions_co2_tonnes = 5878.12\<rparr> \<in> set (calculate_scope1_emissions None sample_table)
   \<and> (1, [sample_thermal_reading\<lparr>timestamp := 36 * usec_per_hour\<rparr>])
        \<in> set (groupby (\<lambda>r. date_of (timestamp r))
               (filter (\<lambda>r. asset_type r = ''thermal'') sample_table))
   \<and> filter (\<lambda>r. asset_type r = ''thermal'' \<and> date_of (timestamp r) = 1) sample_table
        = [sample_thermal_reading\<lparr>timestamp := 36 * usec_per_hour\<rparr>]
   \<and> mset (filter (\<lambda>r. asset_type r = ''thermal'') sample_table)
        = mset [sample_thermal_reading, sample_thermal_reading\<lparr>timestamp := 36 * usec_per_hour\<rparr>]"
proof -
  note inst = scope1_unfiltered_dates_and_groups [of sample_table]
  have m: "(1, [sample_thermal_reading\<lparr>timestamp := 36 * usec_per_hour\<rparr>])
        \<in> set (groupby (\<lambda>r. date_of (timestamp r))
               (filter (\<lambda>r. asset_type r = ''thermal'') sample_table))"
    by (simp add: sample_groups)
  with inst have f: "[sample_thermal_reading\<lparr>timestamp := 36 * usec_per_hour\<rparr>]
      = filter (\<lambda>r. asset_type r = ''thermal'' \<and> date_of (timestamp r) = 1) sample_table"
    by blast
  from inst have "mset (concat (map snd (groupby (\<lambda>r. date_of (timestamp r))
                               (filter (\<lambda>r. asset_type r = ''thermal'') sample_table))))
       = mset (filter (\<lambda>r. asset_type r = ''thermal'') sample_table)"
    by blast
  then have p: "mset (filter (\<lambda>r. asset_type r = ''thermal'') sample_table)
        = mset [sample_thermal_reading, sample_thermal_reading\<lparr>timestamp := 36 * usec_per_hour\<rparr>]"
    unfolding sample_groups by simp
  have r: "\<lparr>s1_date = 1, s1_generation_mw = 940.5, s1_fuel_consumed_tonnes = 2351.25,
       s1_emissions_co2_tonnes = 5878.12\<rparr> \<in> set (calculate_scope1_emissions None sample_table)"
    by (simp add: sample_scope1)
  from r m f p show ?thesis by simp
qed

subsection \<open>One row for each date of the selection\<close>

text \<open>
  C9. For every table and every optional asset filter, the dates of the rows of
  \<open>calculate_scope1_emissions\<close> are strictly ascending, they are exactly the calendar
  dates of the readings of the table that are thermal and, when a filter is given, bear the
  name asked for (an empty name is no filter, as \<^verbatim>\<open>if asset_name:\<close> has it), and
  there is one row for each of these dates.
\<close>

theorem scope1_rows_by_date_of_selection:
  "sorted_wrt (<) (map s1_date (calculate_scope1_emissions name df))
   \<and> set (map s1_date (calculate_scope1_emissions name df)) =
       (\<lambda>r. date_of (timestamp r)) `
         {r \<in> set df. asset_type r = ''thermal''
            \<and> (case name of None \<Rightarrow> True | Some n \<Rightarrow> n = [] \<or> asset_name r = n)}
   \<and> length (calculate_scope1_emissions name df) =
       card ((\<lambda>r. date_of (timestamp r)) `
         {r \<in> set df. asset_type r = ''thermal''
            \<and> (case name of None \<Rightarrow> True | Some n \<Rightarrow> n = [] \<or> asset_name r = n)})"
proof -
  let ?sel = "{r \<in> set df. asset_type r = ''thermal''
            \<and> (case name of None \<Rightarrow> True | Some n \<Rightarrow> n = [] \<or> asset_name r = n)}"
  have sel: "set (thermal_rows (select_asset name df)) = ?sel"
    by (auto simp: thermal_rows_def select_asset_def split: option.splits)
  let ?ds = "map (\<lambda>r. date_of (timestamp r)) (thermal_rows (select_asset name df))"
  have s: "set ?ds = (\<lambda>r. date_of (timestamp r)) ` ?sel" using sel by simp
  have "sorted (sort (remdups ?ds))" "distinct (sort (remdups ?ds))" by simp_all
  then have a: "sorted_wrt (<) (map s1_date (calculate_scope1_emissions name df))"
    by (simp add: strict_sorted_iff scope1_dates)
  have b: "set (map s1_date (calculate_scope1_emissions name df)) = set ?ds"
    by (simp add: scope1_dates)
  have c: "length (calculate_scope1_emissions name df) = card (set ?ds)"
    by (simp add: calculate_scope1_emissions_def groupby_length)
  from a b c show ?thesis unfolding s by blast
qed

lemma dated_dates:
  "date_of (60 * usec_per_hour) = 2" "date_of (84 * usec_per_hour) = 3"
  by (simp_all add: date_of_def usec_per_day_def usec_per_hour_def usec_per_minute_def)

theorem scope1_rows_by_date_of_selection_witness:
  "sorted_wrt (<) (map s1_date (calculate_scope1_emissions (Some ''Barmer Thermal'') dated_table))
   \<and> set (map s1_date (calculate_scope1_emissions (Some ''Barmer Thermal'') dated_table)) = {0, 1}
   \<and> length (calculate_scope1_emissions (Some ''Barmer Thermal'') dated_table) = 2
   \<and> set (map s1_date (calculate_scope1_emissions None dated_table)) = {0, 1, 3}
   \<and> set (map s1_date (calculate_scope1_emissions (Some ''Karnataka Solar'') dated_table)) = {}"
proof -
  have sel: "\<And>P. {r \<in> set dated_table. P r} = set (filter P dated_table)" by simp
  have barmer: "(\<lambda>r. date_of (timestamp r)) `
         {r \<in> set dated_table. asset_type r = ''thermal''
            \<and> (case Some ''Barmer Thermal'' of None \<Rightarrow> True
                | Some n \<Rightarrow> n = [] \<or> asset_name r = n)} = {0, 1}"
    unfolding sel
    by (auto simp: dated_table_def sample_thermal_reading_def sample_solar_reading_def
        sample_dates dated_dates)
  have none: "(\<lambda>r. date_of (timestamp r)) `
         {r \<in> set dated_table. asset_type r = ''thermal''
            \<and> (case None :: string option of None \<Rightarrow> True
                | Some n \<Rightarrow> n = [] \<or> asset_name r = n)} = {0, 1, 3}"
    unfolding sel
    by (auto simp: dated_table_def sample_thermal_reading_def sample_solar_reading_def
        sample_dates dated_dates)
  have solar: "(\<lambda>r. date_of (timestamp r)) `
         {r \<in> set dated_table. asset_type r = ''thermal''
            \<and> (case Some ''Karnataka Solar'' of None \<Rightarrow> True
                | Some n \<Rightarrow> n = [] \<or> asset_name r = n)} = {}"
    unfolding sel
    by (auto simp: dated_table_def sample_thermal_reading_def sample_solar_reading_def
        sample_dates dated_dates)
  from scope1_rows_by_date_of_selection [of "Some ''Barmer Thermal''" dated_table]
  have a: "sorted_wrt (<) (map s1_date (calculate_scope1_emissions (Some ''Barmer Thermal'') dated_table))
      \<and> set (map s1_date (calculate_scope1_emissions (Some ''Barmer Thermal'') dated_table)) = {0, 1}
      \<and> length (calculate_scope1_emissions (Some ''Barmer Thermal'') dated_table) = 2"
    unfolding barmer by simp
  from scope1_rows_by_date_of_selection [of None dated_table]
  have b: "set (map s1_date (calculate_scope1_emissions None dated_table)) = {0, 1, 3}"
    unfolding none by blast
  from scope1_rows_by_date_of_selection [of "Some ''Karnataka Solar''" dated_table]
  have c: "set (map s1_date (calculate_scope1_emissions (Some ''Karnataka Solar'') dated_table)) = {}"
    unfolding solar by blast
  from a b c show ?thesis by blast
qed

end
